theory Spec2Isabelle
  imports Complex_Main
begin

section \<open>JavaScript values used by the scoring code\<close>

text \<open>
  The request parameters and the readings of the environmental bundle arrive as JSON
  numbers and are modelled as reals. Arithmetic on them is exact, with one exception:
  the products of \<open>calculateBaseYield\<close>, whose operands are constants of the source, are
  rounded to binary64 as the source computes them (see \<open>double_mul\<close> below), since the
  value of the base yield depends on the last bit. The infinities are outside the model.
  The one \<open>NaN\<close> the code can produce by itself from finite inputs (arithmetic on a
  table member that is not a number) is tracked by the type \<open>num\<close>.
\<close>

datatype num = NaN | Num real

fun num_mul :: "num \<Rightarrow> num \<Rightarrow> num" where
  "num_mul (Num a) (Num b) = Num (a * b)"
| "num_mul _ _ = NaN"

fun num_add :: "num \<Rightarrow> num \<Rightarrow> num" where
  "num_add (Num a) (Num b) = Num (a + b)"
| "num_add _ _ = NaN"

fun num_sub :: "num \<Rightarrow> num \<Rightarrow> num" where
  "num_sub (Num a) (Num b) = Num (a - b)"
| "num_sub _ _ = NaN"

fun num_div :: "num \<Rightarrow> real \<Rightarrow> num" where
  "num_div (Num a) b = Num (a / b)"
| "num_div NaN b = NaN"

text \<open>\<open>Math.max\<close> and \<open>Math.min\<close> return \<open>NaN\<close> as soon as one argument is \<open>NaN\<close>.\<close>

fun Math_max :: "num \<Rightarrow> num \<Rightarrow> num" where
  "Math_max (Num a) (Num b) = Num (max a b)"
| "Math_max _ _ = NaN"

fun Math_min :: "num \<Rightarrow> num \<Rightarrow> num" where
  "Math_min (Num a) (Num b) = Num (min a b)"
| "Math_min _ _ = NaN"

text \<open>\<open>Math.round\<close>: the nearest integer, a tie going up.\<close>

definition Math_round :: "real \<Rightarrow> real" where
  "Math_round x = of_int \<lfloor>x + 1 / 2\<rfloor>"

fun num_round :: "num \<Rightarrow> num" where
  "num_round (Num a) = Num (Math_round a)"
| "num_round NaN = NaN"

text \<open>A comparison with \<open>NaN\<close> is false.\<close>

fun num_gt :: "num \<Rightarrow> real \<Rightarrow> bool" where
  "num_gt (Num a) b = (a > b)"
| "num_gt NaN b = False"

text \<open>
  A comparison \<open>v > c\<close> where \<open>v\<close> comes out of an optional chain: \<open>undefined > c\<close> is
  false.
\<close>

fun gt_opt :: "real option \<Rightarrow> real \<Rightarrow> bool" where
  "gt_opt (Some v) c = (v > c)"
| "gt_opt None c = False"

text \<open>\<open>v || d\<close> on an optional number: \<open>undefined\<close> and \<open>0\<close> are falsy.\<close>

fun or_default :: "real option \<Rightarrow> real \<Rightarrow> real" where
  "or_default (Some v) d = (if v = 0 then d else v)"
| "or_default None d = d"

text \<open>\<open>s || d\<close> on an optional string: \<open>undefined\<close> and the empty string are falsy.\<close>

fun or_string :: "string option \<Rightarrow> string \<Rightarrow> string" where
  "or_string (Some s) d = (if s = [] then d else s)"
| "or_string None d = d"

subsection \<open>Products in binary64\<close>

text \<open>
  A JavaScript number is an IEEE 754 binary64 value: a significand of 53 bits and a
  power of two. \<open>binary64 x\<close> is the binary64 value nearest to \<open>x\<close>, a tie going to the
  even significand: \<open>significand_scale\<close> doubles or halves the magnitude until it lies
  between \<open>2^52\<close> and \<open>2^53\<close> (it stops doubling at the exponent \<open>-1074\<close> of the
  subnormal numbers), the scaled magnitude is rounded to an integer, and the scaling is
  undone. Overflow to infinity is not modelled.
\<close>

definition round_half_even :: "real \<Rightarrow> int" where
  "round_half_even m =
     (let f = \<lfloor>m\<rfloor>; d = m - of_int f
      in if d < 1 / 2 then f else if 1 / 2 < d then f + 1 else if even f then f else f + 1)"

fun significand_scale :: "nat \<Rightarrow> real \<Rightarrow> int \<Rightarrow> real \<times> int" where
  "significand_scale 0 m e = (m, e)"
| "significand_scale (Suc k) m e =
     (if 9007199254740992 \<le> m then significand_scale k (m / 2) (e + 1)
      else if m < 4503599627370496 \<and> - 1074 < e then significand_scale k (m * 2) (e - 1)
      else (m, e))"

definition binary64 :: "real \<Rightarrow> real" where
  "binary64 x =
     (if x = 0 then 0
      else (let (m, e) = significand_scale 2200 \<bar>x\<bar> 0;
                r = of_int (round_half_even m);
                y = (if 0 \<le> e then r * 2 ^ nat e else r / 2 ^ nat (- e))
            in if x < 0 then - y else y))"

text \<open>
  \<open>a * b\<close> as the source computes it: the operands are binary64 values (a decimal
  literal such as \<open>1.1\<close> denotes the binary64 value nearest to it), and the product is
  rounded to binary64.
\<close>

fun double_mul :: "num \<Rightarrow> num \<Rightarrow> num" where
  "double_mul (Num a) (Num b) = Num (binary64 (binary64 a * binary64 b))"
| "double_mul _ _ = NaN"

subsection \<open>Reading a member of an object literal\<close>

text \<open>
  \<open>table[key]\<close> on an object literal finds the literal's own members and, for any other
  key, the members every object inherits from \<open>Object.prototype\<close>. Those are functions
  (and, for \<open>__proto__\<close>, an object): truthy, and \<open>NaN\<close> once used in a product.
\<close>

definition Object_prototype_names :: "string list" where
  "Object_prototype_names =
     [''constructor'', ''hasOwnProperty'', ''isPrototypeOf'', ''propertyIsEnumerable'',
      ''toLocaleString'', ''toString'', ''valueOf'', ''__proto__'',
      ''__defineGetter__'', ''__defineSetter__'', ''__lookupGetter__'', ''__lookupSetter__'']"

datatype member = Own real | Inherited | Undefined

definition read_member :: "(string \<times> real) list \<Rightarrow> string \<Rightarrow> member" where
  "read_member table key =
     (case map_of table key of
        Some v \<Rightarrow> Own v
      | None \<Rightarrow> if key \<in> set Object_prototype_names then Inherited else Undefined)"

text \<open>\<open>table[key] || d\<close>, as the factor of a product.\<close>

fun member_or :: "member \<Rightarrow> real \<Rightarrow> num" where
  "member_or (Own v) d = Num (if v = 0 then d else v)"
| "member_or Inherited d = NaN"
| "member_or Undefined d = Num d"

section \<open>The data of the simulation endpoint\<close>

record PlayerChoices =
  irrigationMmPerDay :: real
  fertilizerKgPerHa :: real
  livestockDensityPerHa :: real
  cropType :: "string option"
  soilType :: "string option"
  farmingMethod :: "string option"

text \<open>
  \<open>nasaData\<close> has type \<open>any\<close> and is read through optional chains only (one place apart,
  see \<open>generateComprehensiveInsights\<close>). The model keeps the members the simulation reads;
  every object and every reading may be absent, and a reading that is present is a
  number (a string for the drought category).
\<close>

record power_obj =
  temperature2m :: "real option"
  precipitation :: "real option"

record smap_obj =
  soilMoistureSurface :: "real option"
  soilMoistureRootZone :: "real option"

record modis_obj =
  ndvi :: "real option"

record drought_obj =
  droughtCategory :: "string option"

record data_obj =
  power :: "power_obj option"
  smap :: "smap_obj option"
  modis :: "modis_obj option"
  drought :: "drought_obj option"

record nasa_obj =
  data :: "data_obj option"

type_synonym nasaData = "nasa_obj option"

text \<open>The optional chains of the source; \<open>?.\<close> is \<open>Option.bind\<close>.\<close>

definition chain_temperature2m :: "nasaData \<Rightarrow> real option" where
  "chain_temperature2m nasaData =
     Option.bind (Option.bind (Option.bind nasaData data) power) temperature2m"

definition chain_precipitation :: "nasaData \<Rightarrow> real option" where
  "chain_precipitation nasaData =
     Option.bind (Option.bind (Option.bind nasaData data) power) precipitation"

definition chain_soilMoistureRootZone :: "nasaData \<Rightarrow> real option" where
  "chain_soilMoistureRootZone nasaData =
     Option.bind (Option.bind (Option.bind nasaData data) smap) soilMoistureRootZone"

definition chain_soilMoistureSurface :: "nasaData \<Rightarrow> real option" where
  "chain_soilMoistureSurface nasaData =
     Option.bind (Option.bind (Option.bind nasaData data) smap) soilMoistureSurface"

definition chain_ndvi :: "nasaData \<Rightarrow> real option" where
  "chain_ndvi nasaData =
     Option.bind (Option.bind (Option.bind nasaData data) modis) ndvi"

definition chain_drought :: "nasaData \<Rightarrow> drought_obj option" where
  "chain_drought nasaData = Option.bind (Option.bind nasaData data) drought"

definition chain_droughtCategory :: "nasaData \<Rightarrow> string option" where
  "chain_droughtCategory nasaData = Option.bind (chain_drought nasaData) droughtCategory"

datatype priority = High | Medium | Low

record Recommendation =
  category :: string
  priority :: priority
  action :: string
  impact :: string
  implementation :: string

record ComparisonData =
  baseline :: real
  current :: num
  improvement :: num
  benchmark :: string

record LivestockAnalysis =
  soilCompaction :: real
  nutrientCycling :: real
  waterConsumption :: real
  greenhouseGasEmissions :: real
  benefits :: "string list"
  concerns :: "string list"

record IrrigationAnalysis =
  efficiency :: real
  waterStress :: string
  optimalTiming :: string
  recommendedMethod :: string
  waterSavings :: real

record SoilHealthMetrics =
  organicMatter :: real
  pH :: real
  nutrientLevel :: string
  moistureRetention :: real
  compactionRisk :: string

record SimulationResult =
  yieldScore :: num
  sustainabilityScore :: real
  soilHealthScore :: real
  waterEfficiencyScore :: real
  carbonFootprint :: real
  economicViability :: num
  insights :: "string list"
  recommendations :: "Recommendation list"
  comparison :: ComparisonData
  livestockImpact :: LivestockAnalysis
  irrigationAnalysis :: IrrigationAnalysis
  soilHealthMetrics :: SoilHealthMetrics

text \<open>The four scores handed to the two generators (before rounding).\<close>

record scores =
  scores_yieldScore :: num
  scores_sustainabilityScore :: real
  scores_soilHealthScore :: real
  scores_waterEfficiencyScore :: real

datatype js_error = SyntaxError | TypeError | NetworkError

section \<open>The scoring engine\<close>

definition cropMultipliers :: "(string \<times> real) list" where
  "cropMultipliers = [(''Corn'', 100), (''Wheat'', 80), (''Soybeans'', 90), (''Rice'', 85)]"

definition soilMultipliers :: "(string \<times> real) list" where
  "soilMultipliers = [(''Loam'', 1.0), (''Clay'', 0.8), (''Sand'', 0.7), (''Silt'', 0.9)]"

definition calculateBaseYield :: "string \<Rightarrow> string \<Rightarrow> nasaData \<Rightarrow> num" where
  "calculateBaseYield cropType' soilType' nasaData =
     (let baseYield = member_or (read_member cropMultipliers cropType') 100;
          soilFactor = member_or (read_member soilMultipliers soilType') 1.0;
          weatherFactor = (if gt_opt (chain_temperature2m nasaData) 25 then 0.9 else 1.1)
      in double_mul (double_mul baseYield soilFactor) (Num weatherFactor))"

record IrrigationImpact =
  irrigation_yieldBoost :: real
  waterEfficiency :: real

definition calculateIrrigationImpact :: "real \<Rightarrow> nasaData \<Rightarrow> IrrigationImpact" where
  "calculateIrrigationImpact irrigationMm nasaData =
     (let optimalIrrigation = 5;
          nasaSoilMoisture = or_default (chain_soilMoistureRootZone nasaData) 0.3;
          yieldBoost =
            (if irrigationMm > 0
             then (let efficiency' = (if nasaSoilMoisture > 0.25 then 0.8 else 0.6)
                   in min (irrigationMm * 2 * efficiency') 20)
             else 0);
          waterEfficiency' =
            (if irrigationMm > optimalIrrigation
             then max 0.5 (1 - (irrigationMm - optimalIrrigation) * 0.1)
             else 1.0)
      in \<lparr>irrigation_yieldBoost = yieldBoost, waterEfficiency = waterEfficiency'\<rparr>)"

definition soilNutrientRetention :: "(string \<times> real) list" where
  "soilNutrientRetention = [(''Loam'', 0.8), (''Clay'', 0.9), (''Sand'', 0.5), (''Silt'', 0.7)]"

record FertilizerImpact =
  fertilizer_yieldBoost :: num
  soilImpact :: real

definition calculateFertilizerImpact :: "real \<Rightarrow> string \<Rightarrow> FertilizerImpact" where
  "calculateFertilizerImpact fertilizerKg soilType' =
     (let retention = member_or (read_member soilNutrientRetention soilType') 0.8;
          yieldBoost = Math_min (num_mul (Num (fertilizerKg * 0.5)) retention) (Num 15);
          soilImpact' = (if fertilizerKg > 20 then - 5 else if fertilizerKg > 10 then - 2 else 0)
      in \<lparr>fertilizer_yieldBoost = yieldBoost, soilImpact = soilImpact'\<rparr>)"

record LivestockImpact =
  yieldReduction :: real
  livestock_soilCompaction :: real

definition calculateLivestockImpact :: "real \<Rightarrow> nasaData \<Rightarrow> LivestockImpact" where
  "calculateLivestockImpact density nasaData =
     \<lparr>yieldReduction = density * 0.5, livestock_soilCompaction = density * 2\<rparr>"

definition calculateSustainabilityScore :: "PlayerChoices \<Rightarrow> nasaData \<Rightarrow> real" where
  "calculateSustainabilityScore choices nasaData =
     (let score = 100;
          score = (if irrigationMmPerDay choices > 8 then score - 15
                   else if irrigationMmPerDay choices > 5 then score - 8 else score);
          score = (if fertilizerKgPerHa choices > 30 then score - 20
                   else if fertilizerKgPerHa choices > 20 then score - 10 else score);
          score = (if livestockDensityPerHa choices > 5 then score - 10
                   else if livestockDensityPerHa choices > 3 then score - 5 else score);
          score = (if gt_opt (chain_ndvi nasaData) 0.7 then score + 5 else score);
          score = (if gt_opt (chain_soilMoistureRootZone nasaData) 0.3 then score + 3 else score)
      in max 0 (min 100 score))"

definition calculateSoilHealthScore :: "PlayerChoices \<Rightarrow> nasaData \<Rightarrow> real" where
  "calculateSoilHealthScore choices nasaData =
     (let score = 80;
          score = (if fertilizerKgPerHa choices > 25 then score - 10
                   else if fertilizerKgPerHa choices < 5 then score - 5 else score);
          score = score - livestockDensityPerHa choices * 2;
          score = (if irrigationMmPerDay choices > 10 then score - 8 else score);
          soilMoisture = or_default (chain_soilMoistureRootZone nasaData) 0.3;
          score = (if soilMoisture > 0.3 then score + 5
                   else if soilMoisture < 0.2 then score - 10 else score)
      in max 0 (min 100 score))"

definition calculateWaterEfficiencyScore :: "real \<Rightarrow> nasaData \<Rightarrow> real" where
  "calculateWaterEfficiencyScore irrigationMm nasaData =
     (let optimalRange_min = 3;
          optimalRange_max = 7;
          nasaPrecipitation = or_default (chain_precipitation nasaData) 15;
          score = 100;
          score = (if irrigationMm < optimalRange_min
                   then score - (optimalRange_min - irrigationMm) * 5
                   else if irrigationMm > optimalRange_max
                   then score - (irrigationMm - optimalRange_max) * 8
                   else score);
          precipitationMatch = \<bar>irrigationMm - nasaPrecipitation / 30\<bar>;
          score = (if precipitationMatch < 2 then score + 10 else score)
      in max 0 (min 100 score))"

definition calculateCarbonFootprint :: "PlayerChoices \<Rightarrow> real" where
  "calculateCarbonFootprint choices =
     (let footprint = 50;
          footprint = footprint + fertilizerKgPerHa choices * 2;
          footprint = footprint + irrigationMmPerDay choices * 365 * 0.1;
          footprint = footprint + livestockDensityPerHa choices * 15
      in Math_round footprint)"

definition calculateEconomicViability :: "PlayerChoices \<Rightarrow> num \<Rightarrow> num" where
  "calculateEconomicViability choices yieldScore' =
     (let revenue = num_mul yieldScore' (Num 0.5);
          costs = fertilizerKgPerHa choices * 0.8 + irrigationMmPerDay choices * 365 * 0.05
                  + livestockDensityPerHa choices * 20
      in num_round (Math_max (Num 0) (num_sub revenue (Num costs))))"

definition template_string :: "string option \<Rightarrow> string" where
  "template_string v = (case v of Some s \<Rightarrow> s | None \<Rightarrow> ''undefined'')"

text \<open>
  The drought check reads the category through an optional chain, and then again
  without one inside the message: when no drought object can be reached, the chain gives
  \<open>undefined\<close>, which differs from \<open>"None"\<close>, and the second read throws a \<open>TypeError\<close>.
\<close>

definition drought_insight :: "nasaData \<Rightarrow> string list \<Rightarrow> js_error + string list" where
  "drought_insight nasaData insights' =
     (if chain_droughtCategory nasaData \<noteq> Some ''None''
      then (case chain_drought nasaData of
              None \<Rightarrow> Inl TypeError
            | Some d \<Rightarrow>
                Inr (insights' @
                  [''Drought conditions detected ('' @ template_string (droughtCategory d)
                     @ '') - prioritize water conservation'']))
      else Inr insights')"

definition generateComprehensiveInsights ::
    "PlayerChoices \<Rightarrow> nasaData \<Rightarrow> scores \<Rightarrow> js_error + string list" where
  "generateComprehensiveInsights choices nasaData scores' =
     (let insights' = [];
          insights' =
            (if irrigationMmPerDay choices > 8
             then insights' @
               [''High irrigation levels detected - consider water conservation strategies'']
             else if irrigationMmPerDay choices < 3
             then insights' @
               [''Low irrigation may limit crop growth - monitor soil moisture closely'']
             else insights');
          insights' =
            (if fertilizerKgPerHa choices > 25
             then insights' @
               [''High fertilizer use may cause nutrient runoff and soil degradation'']
             else if fertilizerKgPerHa choices < 10
             then insights' @ [''Consider soil testing to optimize fertilizer application'']
             else insights');
          insights' =
            (if livestockDensityPerHa choices > 4
             then insights' @ [''High livestock density increases soil compaction risk'']
             else if livestockDensityPerHa choices > 0
             then insights' @ [''Livestock can provide natural fertilizer through manure'']
             else insights')
      in case drought_insight nasaData insights' of
           Inl e \<Rightarrow> Inl e
         | Inr insights' \<Rightarrow>
             Inr (if gt_opt (chain_ndvi nasaData) 0.7
                  then insights' @
                    [''Excellent vegetation health detected - current practices are effective'']
                  else insights'))"

definition generateDetailedRecommendations ::
    "PlayerChoices \<Rightarrow> nasaData \<Rightarrow> scores \<Rightarrow> Recommendation list" where
  "generateDetailedRecommendations choices nasaData scores' =
     (let recommendations' = [];
          recommendations' =
            (if scores_waterEfficiencyScore scores' < 70
             then recommendations' @
               [\<lparr>category = ''Water Management'', priority = High,
                 action = ''Optimize irrigation schedule'',
                 impact = ''Improve water efficiency by 15-20%'',
                 implementation =
                   ''Use soil moisture sensors and irrigate during early morning''\<rparr>]
             else recommendations');
          recommendations' =
            (if fertilizerKgPerHa choices > 20
             then recommendations' @
               [\<lparr>category = ''Nutrient Management'', priority = Medium,
                 action = ''Reduce fertilizer application'',
                 impact = ''Lower costs and reduce environmental impact'',
                 implementation =
                   ''Conduct soil test and apply fertilizer based on crop needs''\<rparr>]
             else recommendations');
          recommendations' =
            (if livestockDensityPerHa choices > 3
             then recommendations' @
               [\<lparr>category = ''Livestock Management'', priority = Medium,
                 action = ''Implement rotational grazing'',
                 impact = ''Reduce soil compaction and improve pasture health'',
                 implementation =
                   ''Rotate livestock every 7-14 days to allow pasture recovery''\<rparr>]
             else recommendations')
      in recommendations')"

definition generateComparisonData :: "PlayerChoices \<Rightarrow> num \<Rightarrow> ComparisonData" where
  "generateComparisonData choices yieldScore' =
     (let baselineYield = 100;
          improvement' =
            num_mul (num_div (num_sub yieldScore' (Num baselineYield)) baselineYield) (Num 100)
      in \<lparr>baseline = baselineYield,
          current = yieldScore',
          improvement = num_round improvement',
          benchmark = (if num_gt improvement' 10 then ''Above Average''
                       else if num_gt improvement' 0 then ''Average''
                       else ''Below Average'')\<rparr>)"

definition analyzeLivestockEffects :: "real \<Rightarrow> nasaData \<Rightarrow> LivestockAnalysis" where
  "analyzeLivestockEffects density nasaData =
     \<lparr>soilCompaction = density * 15,
      nutrientCycling = density * 8,
      waterConsumption = density * 50,
      greenhouseGasEmissions = density * 12,
      benefits = (if density > 0
                  then [''Natural fertilizer through manure'',
                        ''Increased soil organic matter'',
                        ''Diversified income streams'']
                  else []),
      concerns = (if density > 3
                  then [''Increased soil compaction'',
                        ''Higher water consumption'',
                        ''Potential overgrazing'']
                  else [])\<rparr>"

definition analyzeIrrigationEffects :: "real \<Rightarrow> nasaData \<Rightarrow> IrrigationAnalysis" where
  "analyzeIrrigationEffects irrigationMm nasaData =
     (let nasaSoilMoisture = or_default (chain_soilMoistureSurface nasaData) 0.3
      in \<lparr>efficiency = (if nasaSoilMoisture > 0.25 then 85 else 70),
          waterStress = (if irrigationMm > 8 then ''High''
                         else if irrigationMm > 5 then ''Moderate'' else ''Low''),
          optimalTiming = ''Early morning (6-8 AM)'',
          recommendedMethod =
            (if irrigationMm > 6 then ''Drip Irrigation'' else ''Sprinkler System''),
          waterSavings = (if irrigationMm > 7 then 20 else 0)\<rparr>)"

definition analyzeSoilHealth :: "PlayerChoices \<Rightarrow> nasaData \<Rightarrow> SoilHealthMetrics" where
  "analyzeSoilHealth choices nasaData =
     (let nasaSoilMoisture = or_default (chain_soilMoistureRootZone nasaData) 0.3
      in \<lparr>organicMatter = 2.5 + livestockDensityPerHa choices * 0.3
                            - fertilizerKgPerHa choices * 0.02,
          pH = 6.5 + fertilizerKgPerHa choices * 0.01,
          nutrientLevel = (if fertilizerKgPerHa choices > 20 then ''High''
                           else if fertilizerKgPerHa choices > 10 then ''Moderate''
                           else ''Low''),
          moistureRetention = nasaSoilMoisture * 100,
          compactionRisk = (if livestockDensityPerHa choices > 4 then ''High''
                            else if livestockDensityPerHa choices > 2 then ''Moderate''
                            else ''Low'')\<rparr>)"

definition runComprehensiveSimulation ::
    "PlayerChoices \<Rightarrow> nasaData \<Rightarrow> js_error + SimulationResult" where
  "runComprehensiveSimulation choices nasaData =
     (let baseYield = calculateBaseYield (or_string (cropType choices) ''Corn'')
                        (or_string (soilType choices) ''Loam'') nasaData;
          irrigationImpact = calculateIrrigationImpact (irrigationMmPerDay choices) nasaData;
          fertilizerImpact = calculateFertilizerImpact (fertilizerKgPerHa choices)
                               (or_string (soilType choices) ''Loam'');
          livestockImpact' = calculateLivestockImpact (livestockDensityPerHa choices) nasaData;
          yieldScore' =
            Math_max (Num 0)
              (num_sub
                 (num_add (num_add baseYield (Num (irrigation_yieldBoost irrigationImpact)))
                    (fertilizer_yieldBoost fertilizerImpact))
                 (Num (yieldReduction livestockImpact')));
          sustainabilityScore' = calculateSustainabilityScore choices nasaData;
          soilHealthScore' = calculateSoilHealthScore choices nasaData;
          waterEfficiencyScore' =
            calculateWaterEfficiencyScore (irrigationMmPerDay choices) nasaData;
          carbonFootprint' = calculateCarbonFootprint choices;
          economicViability' = calculateEconomicViability choices yieldScore';
          scores' = \<lparr>scores_yieldScore = yieldScore',
                     scores_sustainabilityScore = sustainabilityScore',
                     scores_soilHealthScore = soilHealthScore',
                     scores_waterEfficiencyScore = waterEfficiencyScore'\<rparr>
      in case generateComprehensiveInsights choices nasaData scores' of
           Inl e \<Rightarrow> Inl e
         | Inr insights' \<Rightarrow>
             (let recommendations' = generateDetailedRecommendations choices nasaData scores'
              in Inr \<lparr>yieldScore = num_round yieldScore',
                      sustainabilityScore = Math_round sustainabilityScore',
                      soilHealthScore = Math_round soilHealthScore',
                      waterEfficiencyScore = Math_round waterEfficiencyScore',
                      carbonFootprint = Math_round carbonFootprint',
                      economicViability = num_round economicViability',
                      insights = insights',
                      recommendations = recommendations',
                      comparison = generateComparisonData choices yieldScore',
                      livestockImpact =
                        analyzeLivestockEffects (livestockDensityPerHa choices) nasaData,
                      irrigationAnalysis =
                        analyzeIrrigationEffects (irrigationMmPerDay choices) nasaData,
                      soilHealthMetrics = analyzeSoilHealth choices nasaData\<rparr>))"

section \<open>The simulation endpoint\<close>

text \<open>
  What the request carries as its body. \<open>request.json()\<close> parses the body text as JSON:
  with no body at all, or with text that is not JSON, parsing fails and the promise is
  rejected with a \<open>SyntaxError\<close>. A body that parses gives a value; the source types it
  \<open>PlayerChoices | undefined\<close>, and the only values it sets apart are the falsy ones
  (\<open>null\<close>, \<open>false\<close>, \<open>0\<close>, the empty string).
\<close>

datatype request_body = NoBody | NotJson | FalsyJson | ChoicesJson PlayerChoices

definition request_json :: "request_body \<Rightarrow> js_error + PlayerChoices option" where
  "request_json b =
     (case b of
        NoBody \<Rightarrow> Inl SyntaxError
      | NotJson \<Rightarrow> Inl SyntaxError
      | FalsyJson \<Rightarrow> Inr None
      | ChoicesJson c \<Rightarrow> Inr (Some c))"

record 'p response =
  status :: nat
  payload :: 'p

datatype post_payload =
    PostError (error: string) (details: "js_error option")
  | PostResult SimulationResult

text \<open>
  An endpoint either answers with a response or lets an exception escape to the
  framework.
\<close>

datatype 'a completion = Responded 'a | Escaped js_error

text \<open>
  \<open>fetched\<close> is what the request to the environmental endpoint followed by \<open>.json()\<close>
  gives: an exception, or the parsed bundle.
\<close>

definition POST :: "js_error + nasaData \<Rightarrow> request_body \<Rightarrow> post_payload response completion" where
  "POST fetched request =
     (case request_json request of
        Inl e \<Rightarrow> Escaped e
      | Inr body \<Rightarrow>
          (case body of
             None \<Rightarrow>
               Responded \<lparr>status = 400, payload = PostError ''Missing request body'' None\<rparr>
           | Some b \<Rightarrow>
               (let choices =
                      \<lparr>irrigationMmPerDay = irrigationMmPerDay b,
                       fertilizerKgPerHa = fertilizerKgPerHa b,
                       livestockDensityPerHa = livestockDensityPerHa b,
                       cropType = Some (case cropType b of None \<Rightarrow> ''Corn'' | Some s \<Rightarrow> s),
                       soilType = Some (case soilType b of None \<Rightarrow> ''Loam'' | Some s \<Rightarrow> s),
                       farmingMethod =
                         Some (case farmingMethod b of
                                 None \<Rightarrow> ''Conventional'' | Some s \<Rightarrow> s)\<rparr>
                in case fetched of
                     Inl e \<Rightarrow>
                       Responded \<lparr>status = 500,
                                  payload = PostError ''Simulation failed'' (Some e)\<rparr>
                   | Inr nasaData \<Rightarrow>
                       (case runComprehensiveSimulation choices nasaData of
                          Inl e \<Rightarrow>
                            Responded \<lparr>status = 500,
                                       payload = PostError ''Simulation failed'' (Some e)\<rparr>
                        | Inr result \<Rightarrow>
                            Responded \<lparr>status = 200, payload = PostResult result\<rparr>))))"

section \<open>The environmental-data endpoint\<close>

text \<open>
  The generator reads the clock and draws pseudo-random numbers. Both are inputs of the
  model: \<open>now\<close> is \<open>Date.now()\<close>, \<open>random k\<close> is the value of the \<open>k\<close>-th call of
  \<open>Math.random()\<close> made while the request is served (the calls are numbered in the order
  in which the source evaluates them), \<open>isoString\<close> is \<open>new Date().toISOString()\<close>.
  The members of the generated bundle are named by their path, \<open>power_temperature2m\<close>
  for \<open>power.temperature2m\<close>.
\<close>

record entropy =
  now :: real
  random :: "nat \<Rightarrow> real"
  isoString :: string

text \<open>
  \<open>Number(v)\<close> of what \<open>searchParams.get\<close> returned (a string, or \<open>null\<close>): kept as it
  is written. The generator never reads it and no branch depends on it.
\<close>

datatype coerced = Number "string option"

record query =
  lat :: "string option"
  lon :: "string option"
  dataset :: "string option"

record power_readings =
  power_temperature2m :: real
  power_precipitation :: real
  power_solarRadiation :: real
  power_humidity :: real
  power_windSpeed :: real

record smap_readings =
  smap_soilMoistureSurface :: real
  smap_soilMoistureRootZone :: real
  smap_soilTemperature :: real

record modis_readings =
  modis_ndvi :: real
  modis_evi :: real
  modis_lai :: real
  modis_fpar :: real

record gpm_readings =
  gpm_precipitationRate :: real
  gpm_precipitationAccumulation :: real

record drought_readings =
  drought_droughtIndex :: real
  drought_droughtCategory :: string
  drought_soilMoisturePercentile :: real

record baseData =
  base_power :: power_readings
  base_smap :: smap_readings
  base_modis :: modis_readings
  base_gpm :: gpm_readings
  base_drought :: drought_readings

record soilHealth =
  soilHealth_score :: real
  soilHealth_moistureLevel :: string
  soilHealth_temperatureStatus :: string
  soilHealth_organicMatter :: real
  soilHealth_pH :: real
  soilHealth_nutrientLevel :: string

record irrigationNeeds =
  irrigationNeeds_dailyRequirement :: real
  irrigationNeeds_weeklyRequirement :: real
  irrigationNeeds_efficiency :: string
  irrigationNeeds_recommendedMethod :: string
  irrigationNeeds_waterStress :: string

record cropStress =
  cropStress_overallStress :: real
  cropStress_heatStress :: string
  cropStress_coldStress :: string
  cropStress_waterStress :: string
  cropStress_vegetationHealth :: string

record waterBalance =
  waterBalance_inflow :: real
  waterBalance_outflow :: real
  waterBalance_netBalance :: real
  waterBalance_soilStorage :: real
  waterBalance_runoffRisk :: string

record derived =
  derived_soilHealth :: soilHealth
  derived_irrigationNeeds :: irrigationNeeds
  derived_cropStress :: cropStress
  derived_waterBalance :: waterBalance

record bundle_data =
  data_base :: baseData
  data_derived :: derived

record advice =
  advice_type :: string
  advice_priority :: string
  advice_action :: string
  advice_impact :: string
  advice_implementation :: string

record comprehensive =
  comprehensive_datasets :: "string list"
  comprehensive_data :: bundle_data
  comprehensive_insights :: "string list"
  comprehensive_recommendations :: "advice list"

definition getDroughtCategory :: "real \<Rightarrow> string" where
  "getDroughtCategory index =
     (if index < 0.2 then ''None''
      else if index < 0.3 then ''Abnormally Dry''
      else if index < 0.4 then ''Moderate Drought''
      else if index < 0.5 then ''Severe Drought''
      else if index < 0.6 then ''Extreme Drought''
      else ''Exceptional Drought'')"

definition calculateSoilHealth :: "entropy \<Rightarrow> baseData \<Rightarrow> soilHealth" where
  "calculateSoilHealth e d =
     (let moisture = smap_soilMoistureRootZone (base_smap d);
          temp = smap_soilTemperature (base_smap d);
          ndvi' = modis_ndvi (base_modis d)
      in \<lparr>soilHealth_score =
            min 100 (moisture * 100 + (25 - \<bar>temp - 20\<bar>) * 2 + ndvi' * 50),
          soilHealth_moistureLevel =
            (if moisture > 0.3 then ''Optimal''
             else if moisture > 0.2 then ''Moderate'' else ''Low''),
          soilHealth_temperatureStatus =
            (if temp > 25 then ''Hot'' else if temp < 15 then ''Cold'' else ''Optimal''),
          soilHealth_organicMatter = 2.5 + random e 16 * 1.5,
          soilHealth_pH = 6.2 + random e 17 * 0.8,
          soilHealth_nutrientLevel = ''Moderate''\<rparr>)"

definition calculateIrrigationNeeds :: "baseData \<Rightarrow> irrigationNeeds" where
  "calculateIrrigationNeeds d =
     (let precipitation' = power_precipitation (base_power d);
          soilMoisture = smap_soilMoistureSurface (base_smap d);
          temperature = power_temperature2m (base_power d);
          evapotranspiration = temperature * 0.1 + 2;
          waterDeficit = evapotranspiration - precipitation';
          irrigationRequired = max 0 (waterDeficit * 0.8)
      in \<lparr>irrigationNeeds_dailyRequirement = irrigationRequired,
          irrigationNeeds_weeklyRequirement = irrigationRequired * 7,
          irrigationNeeds_efficiency = (if soilMoisture > 0.25 then ''High'' else ''Moderate''),
          irrigationNeeds_recommendedMethod =
            (if irrigationRequired > 5 then ''Drip Irrigation'' else ''Sprinkler''),
          irrigationNeeds_waterStress =
            (if waterDeficit > 3 then ''High''
             else if waterDeficit > 1 then ''Moderate'' else ''Low'')\<rparr>)"

definition calculateCropStress :: "baseData \<Rightarrow> cropStress" where
  "calculateCropStress d =
     (let ndvi' = modis_ndvi (base_modis d);
          temperature = power_temperature2m (base_power d);
          soilMoisture = smap_soilMoistureRootZone (base_smap d);
          stressScore = 0;
          stressScore = (if temperature > 30 then stressScore + 20 else stressScore);
          stressScore = (if temperature < 10 then stressScore + 15 else stressScore);
          stressScore = (if soilMoisture < 0.2 then stressScore + 25 else stressScore);
          stressScore = (if ndvi' < 0.5 then stressScore + 20 else stressScore)
      in \<lparr>cropStress_overallStress = stressScore,
          cropStress_heatStress =
            (if temperature > 30 then ''High''
             else if temperature > 25 then ''Moderate'' else ''Low''),
          cropStress_coldStress =
            (if temperature < 10 then ''High''
             else if temperature < 15 then ''Moderate'' else ''Low''),
          cropStress_waterStress =
            (if soilMoisture < 0.2 then ''High''
             else if soilMoisture < 0.25 then ''Moderate'' else ''Low''),
          cropStress_vegetationHealth =
            (if ndvi' > 0.7 then ''Excellent''
             else if ndvi' > 0.5 then ''Good'' else ''Poor'')\<rparr>)"

definition calculateWaterBalance :: "baseData \<Rightarrow> waterBalance" where
  "calculateWaterBalance d =
     (let precipitation' = power_precipitation (base_power d);
          evapotranspiration = power_temperature2m (base_power d) * 0.1 + 2;
          soilMoisture = smap_soilMoistureSurface (base_smap d)
      in \<lparr>waterBalance_inflow = precipitation',
          waterBalance_outflow = evapotranspiration,
          waterBalance_netBalance = precipitation' - evapotranspiration,
          waterBalance_soilStorage = soilMoisture * 100,
          waterBalance_runoffRisk =
            (if precipitation' > 20 then ''High''
             else if precipitation' > 10 then ''Moderate'' else ''Low'')\<rparr>)"

definition generateInsights ::
    "baseData \<Rightarrow> soilHealth \<Rightarrow> irrigationNeeds \<Rightarrow> cropStress \<Rightarrow> string list" where
  "generateInsights d soilHealth' irrigationNeeds' cropStress' =
     (let insights' = [];
          insights' =
            (if power_temperature2m (base_power d) > 28
             then insights' @
               [''High temperatures detected - consider shade management and increased irrigation'']
             else insights');
          insights' =
            (if smap_soilMoistureRootZone (base_smap d) < 0.25
             then insights' @
               [''Soil moisture is below optimal levels - irrigation recommended'']
             else insights');
          insights' =
            (if modis_ndvi (base_modis d) > 0.7
             then insights' @
               [''Vegetation health is excellent - current management practices are effective'']
             else insights');
          insights' =
            (if irrigationNeeds_dailyRequirement irrigationNeeds' > 5
             then insights' @
               [''High irrigation demand detected - monitor water usage efficiency'']
             else insights');
          insights' =
            (if cropStress_overallStress cropStress' > 50
             then insights' @
               [''Crop stress levels are elevated - review management practices'']
             else insights')
      in insights')"

definition generateRecommendations ::
    "baseData \<Rightarrow> soilHealth \<Rightarrow> irrigationNeeds \<Rightarrow> advice list" where
  "generateRecommendations d soilHealth' irrigationNeeds' =
     (let recommendations' = [];
          recommendations' =
            (if soilHealth_moistureLevel soilHealth' = ''Low''
             then recommendations' @
               [\<lparr>advice_type = ''Irrigation'', advice_priority = ''High'',
                 advice_action = ''Increase irrigation frequency'',
                 advice_impact = ''Improve soil moisture and crop yield'',
                 advice_implementation = ''Apply 2-3mm daily for next 5 days''\<rparr>]
             else recommendations');
          recommendations' =
            (if irrigationNeeds_dailyRequirement irrigationNeeds' > 3
             then recommendations' @
               [\<lparr>advice_type = ''Water Management'', advice_priority = ''Medium'',
                 advice_action = ''Optimize irrigation timing'',
                 advice_impact = ''Reduce water waste and improve efficiency'',
                 advice_implementation = ''Irrigate during early morning hours''\<rparr>]
             else recommendations');
          recommendations' =
            (if power_temperature2m (base_power d) > 30
             then recommendations' @
               [\<lparr>advice_type = ''Heat Management'', advice_priority = ''High'',
                 advice_action = ''Implement heat stress mitigation'',
                 advice_impact = ''Protect crops from heat damage'',
                 advice_implementation = ''Increase irrigation and consider shade cloth''\<rparr>]
             else recommendations')
      in recommendations')"

text \<open>
  Nothing in the generator throws, so its promise is always fulfilled: the result is an
  \<open>Inr\<close>. The coordinates are parameters it never reads.
\<close>

definition fetchComprehensiveNasaData ::
    "entropy \<Rightarrow> coerced \<Rightarrow> coerced \<Rightarrow> js_error + comprehensive" where
  "fetchComprehensiveNasaData e lat' lon' =
     (let baseData' =
            \<lparr>base_power =
               \<lparr>power_temperature2m = 22.5 + sin (now e / 1000000) * 5,
                power_precipitation = 15.2 + random e 0 * 10,
                power_solarRadiation = 180 + random e 1 * 50,
                power_humidity = 65 + random e 2 * 20,
                power_windSpeed = 3.2 + random e 3 * 2\<rparr>,
             base_smap =
               \<lparr>smap_soilMoistureSurface = 0.32 + random e 4 * 0.1,
                smap_soilMoistureRootZone = 0.28 + random e 5 * 0.08,
                smap_soilTemperature = 18.5 + random e 6 * 3\<rparr>,
             base_modis =
               \<lparr>modis_ndvi = 0.65 + random e 7 * 0.15,
                modis_evi = 0.45 + random e 8 * 0.1,
                modis_lai = 2.8 + random e 9 * 0.5,
                modis_fpar = 0.72 + random e 10 * 0.1\<rparr>,
             base_gpm =
               \<lparr>gpm_precipitationRate = 2.1 + random e 11 * 1.5,
                gpm_precipitationAccumulation = 45.3 + random e 12 * 20\<rparr>,
             base_drought =
               \<lparr>drought_droughtIndex = 0.3 + random e 13 * 0.4,
                drought_droughtCategory = getDroughtCategory (0.3 + random e 14 * 0.4),
                drought_soilMoisturePercentile = 45 + random e 15 * 30\<rparr>\<rparr>;
          soilHealth' = calculateSoilHealth e baseData';
          irrigationNeeds' = calculateIrrigationNeeds baseData';
          cropStress' = calculateCropStress baseData';
          waterBalance' = calculateWaterBalance baseData'
      in Inr \<lparr>comprehensive_datasets =
                 [''NASA POWER (Weather & Climate)'',
                  ''SMAP (Soil Moisture)'',
                  ''MODIS (Vegetation Health)'',
                  ''GPM (Precipitation)'',
                  ''U.S. Drought Monitor''],
               comprehensive_data =
                 \<lparr>data_base = baseData',
                  data_derived =
                    \<lparr>derived_soilHealth = soilHealth',
                     derived_irrigationNeeds = irrigationNeeds',
                     derived_cropStress = cropStress',
                     derived_waterBalance = waterBalance'\<rparr>\<rparr>,
               comprehensive_insights =
                 generateInsights baseData' soilHealth' irrigationNeeds' cropStress',
               comprehensive_recommendations =
                 generateRecommendations baseData' soilHealth' irrigationNeeds'\<rparr>)"

record reply =
  reply_source :: string
  reply_location :: "coerced \<times> coerced"
  reply_timestamp :: string
  reply_datasets :: "string list"
  reply_data :: bundle_data
  reply_insights :: "string list"
  reply_recommendations :: "advice list"

datatype get_payload =
    GetError (get_error: string) (get_details: "js_error option")
  | GetBundle reply

text \<open>\<open>!s\<close> on the result of \<open>searchParams.get\<close>: true for \<open>null\<close> and for the empty string.\<close>

fun not_string :: "string option \<Rightarrow> bool" where
  "not_string None = True"
| "not_string (Some s) = (s = [])"

definition GET :: "entropy \<Rightarrow> query \<Rightarrow> get_payload response" where
  "GET e q =
     (let latitude = lat q;
          longitude = lon q;
          dataset' = (case dataset q of None \<Rightarrow> ''comprehensive'' | Some d \<Rightarrow> d)
      in if not_string latitude \<or> not_string longitude
         then \<lparr>status = 400,
               payload = GetError ''Missing required query params: lat, lon'' None\<rparr>
         else (case fetchComprehensiveNasaData e (Number latitude) (Number longitude) of
                 Inr nasaData \<Rightarrow>
                   \<lparr>status = 200,
                    payload = GetBundle
                      \<lparr>reply_source = ''NASA Multi-Dataset Integration'',
                       reply_location = (Number latitude, Number longitude),
                       reply_timestamp = isoString e,
                       reply_datasets = comprehensive_datasets nasaData,
                       reply_data = comprehensive_data nasaData,
                       reply_insights = comprehensive_insights nasaData,
                       reply_recommendations = comprehensive_recommendations nasaData\<rparr>\<rparr>
               | Inl error' \<Rightarrow>
                   \<lparr>status = 500,
                    payload = GetError ''Failed to fetch NASA data'' (Some error')\<rparr>))"

section \<open>The statements of the specification, and reference inputs\<close>

text \<open>
  The precondition of the specification on the farm parameters: the three amounts are
  not negative, crop and soil are among the four names of their tables.
\<close>

fun listed :: "string option \<Rightarrow> string list \<Rightarrow> bool" where
  "listed (Some k) names = (k \<in> set names)"
| "listed None names = False"

definition valid_FarmParameters :: "PlayerChoices \<Rightarrow> bool" where
  "valid_FarmParameters choices \<longleftrightarrow>
     0 \<le> irrigationMmPerDay choices \<and> 0 \<le> fertilizerKgPerHa choices
     \<and> 0 \<le> livestockDensityPerHa choices
     \<and> listed (cropType choices) [''Corn'', ''Wheat'', ''Soybeans'', ''Rice'']
     \<and> listed (soilType choices) [''Loam'', ''Clay'', ''Sand'', ''Silt'']"

text \<open>A score of the result that is a number between 0 and 100.\<close>

fun score_in_range :: "num \<Rightarrow> bool" where
  "score_in_range (Num y) = (0 \<le> y \<and> y \<le> 100)"
| "score_in_range NaN = False"

fun score_not_negative :: "num \<Rightarrow> bool" where
  "score_not_negative (Num y) = (0 \<le> y)"
| "score_not_negative NaN = False"

text \<open>
  The sustainability score as the specification words it: 100, less the deductions for
  irrigation, fertilizer and livestock, plus the two bonuses, clamped.
\<close>

definition sustainability_spec ::
    "real \<Rightarrow> real \<Rightarrow> real \<Rightarrow> real option \<Rightarrow> real option \<Rightarrow> real" where
  "sustainability_spec irrigation fertilizer livestock ndvi_reading moisture_reading =
     max 0 (min 100
       (100
        - (if irrigation > 8 then 15 else if irrigation > 5 then 8 else 0)
        - (if fertilizer > 30 then 20 else if fertilizer > 20 then 10 else 0)
        - (if livestock > 5 then 10 else if livestock > 3 then 5 else 0)
        + (if gt_opt ndvi_reading 0.7 then 5 else 0)
        + (if gt_opt moisture_reading 0.3 then 3 else 0)))"

text \<open>
  The irrigation impact as the specification words it: the efficiency is decided by the
  root-zone reading alone.
\<close>

definition claimed_efficiency :: "real option \<Rightarrow> real" where
  "claimed_efficiency moisture_reading = (if gt_opt moisture_reading 0.25 then 0.8 else 0.6)"

definition claimed_yieldBoost :: "real \<Rightarrow> real option \<Rightarrow> real" where
  "claimed_yieldBoost irrigation moisture_reading =
     min (irrigation * 2 * claimed_efficiency moisture_reading) 20"

definition claimed_waterEfficiency :: "real \<Rightarrow> real" where
  "claimed_waterEfficiency irrigation =
     (if irrigation \<le> 5 then 1.0 else max 0.5 (1 - (irrigation - 5) * 0.1))"

text \<open>The efficiency with the default of the code: an absent reading counts as 0.3.\<close>

definition efficiency_with_default :: "real option \<Rightarrow> real" where
  "efficiency_with_default moisture_reading =
     (case moisture_reading of
        None \<Rightarrow> 0.8
      | Some m \<Rightarrow> if m > 0.25 then 0.8 else 0.6)"

text \<open>The input of the worked example of the specification.\<close>

definition reference_choices :: PlayerChoices where
  "reference_choices =
     \<lparr>irrigationMmPerDay = 5, fertilizerKgPerHa = 15, livestockDensityPerHa = 2,
      cropType = Some ''Corn'', soilType = Some ''Loam'',
      farmingMethod = Some ''Conventional''\<rparr>"

text \<open>
  A bundle with the four readings of the worked example, and a drought category, without
  which the insight generator throws.
\<close>

definition reference_bundle :: nasaData where
  "reference_bundle =
     Some \<lparr>data = Some
       \<lparr>power = Some \<lparr>temperature2m = Some 20, precipitation = Some 15\<rparr>,
        smap = Some \<lparr>soilMoistureSurface = None, soilMoistureRootZone = Some 0.3\<rparr>,
        modis = Some \<lparr>ndvi = Some 0.65\<rparr>,
        drought = Some \<lparr>droughtCategory = Some ''None''\<rparr>\<rparr>\<rparr>"

text \<open>The reference input with a crop name that every object inherits a member for.\<close>

definition prototype_crop_choices :: PlayerChoices where
  "prototype_crop_choices = reference_choices\<lparr>cropType := Some ''constructor''\<rparr>"

text \<open>An input whose water-efficiency score is 69.6 before rounding.\<close>

definition borderline_choices :: PlayerChoices where
  "borderline_choices = reference_choices\<lparr>irrigationMmPerDay := 10.8\<rparr>"

text \<open>An input that crosses the three thresholds of the recommendations.\<close>

definition sample_scores :: scores where
  "sample_scores =
     \<lparr>scores_yieldScore = Num 100, scores_sustainabilityScore = 65,
      scores_soilHealthScore = 72, scores_waterEfficiencyScore = 60\<rparr>"

definition intensive_choices :: PlayerChoices where
  "intensive_choices =
     \<lparr>irrigationMmPerDay = 12, fertilizerKgPerHa = 25, livestockDensityPerHa = 4,
      cropType = Some ''Wheat'', soilType = Some ''Clay'',
      farmingMethod = Some ''Conventional''\<rparr>"

text \<open>The reference bundle under a drought.\<close>

definition drought_bundle :: nasaData where
  "drought_bundle =
     Some \<lparr>data = Some
       \<lparr>power = Some \<lparr>temperature2m = Some 20, precipitation = Some 15\<rparr>,
        smap = Some \<lparr>soilMoistureSurface = None, soilMoistureRootZone = Some 0.3\<rparr>,
        modis = Some \<lparr>ndvi = Some 0.65\<rparr>,
        drought = Some \<lparr>droughtCategory = Some ''Severe Drought''\<rparr>\<rparr>\<rparr>"

text \<open>A bundle with the four readings of the worked example and nothing else.\<close>

definition four_readings_bundle :: nasaData where
  "four_readings_bundle =
     Some \<lparr>data = Some
       \<lparr>power = Some \<lparr>temperature2m = Some 20, precipitation = Some 15\<rparr>,
        smap = Some \<lparr>soilMoistureSurface = None, soilMoistureRootZone = Some 0.3\<rparr>,
        modis = Some \<lparr>ndvi = Some 0.65\<rparr>,
        drought = None\<rparr>\<rparr>"

text \<open>Two bundles in which the simulation reads the same values.\<close>

definition same_readings :: "nasaData \<Rightarrow> nasaData \<Rightarrow> bool" where
  "same_readings a b \<longleftrightarrow>
     chain_temperature2m a = chain_temperature2m b
     \<and> chain_precipitation a = chain_precipitation b
     \<and> chain_soilMoistureRootZone a = chain_soilMoistureRootZone b
     \<and> chain_soilMoistureSurface a = chain_soilMoistureSurface b
     \<and> chain_ndvi a = chain_ndvi b
     \<and> chain_drought a = chain_drought b"

text \<open>
  What the simulation endpoint holds as \<open>nasaData\<close> when the environmental endpoint
  answered with an error: an object without a \<open>data\<close> member.
\<close>

definition error_answer_bundle :: nasaData where
  "error_answer_bundle = Some \<lparr>data = None\<rparr>"

definition reference_entropy :: entropy where
  "reference_entropy =
     \<lparr>now = 0, random = (\<lambda>k. 0), isoString = ''1970-01-01T00:00:00.000Z''\<rparr>"

definition malformed_query :: query where
  "malformed_query = \<lparr>lat = Some ''abc'', lon = Some ''xyz'', dataset = None\<rparr>"

definition empty_query :: query where
  "empty_query = \<lparr>lat = None, lon = None, dataset = None\<rparr>"

definition lon_only_query :: query where
  "lon_only_query = \<lparr>lat = None, lon = Some ''-74.0060'', dataset = None\<rparr>"

fun is_bundle :: "get_payload \<Rightarrow> bool" where
  "is_bundle (GetBundle r) = True"
| "is_bundle (GetError m d) = False"

section \<open>Rounding and clamping\<close>

lemma Math_round_mono: "x \<le> y \<Longrightarrow> Math_round x \<le> Math_round y"
  by (simp add: Math_round_def floor_mono)

lemma Math_round_range:
  assumes "0 \<le> x" and "x \<le> 100"
  shows "0 \<le> Math_round x" and "Math_round x \<le> 100"
  using assms unfolding Math_round_def by (simp_all add: floor_le_iff)

lemma Math_round_nonneg: "0 \<le> x \<Longrightarrow> 0 \<le> Math_round x"
  unfolding Math_round_def by simp

lemma clamp_range: "0 \<le> max 0 (min 100 (x::real))" "max 0 (min 100 (x::real)) \<le> 100"
  by simp_all

lemma clamp_mono: "x \<le> y \<Longrightarrow> max 0 (min 100 (x::real)) \<le> max 0 (min 100 y)"
  by (simp add: max.coboundedI2 min.coboundedI2)

lemma sustainability_range:
  "0 \<le> calculateSustainabilityScore c n" "calculateSustainabilityScore c n \<le> 100"
  unfolding calculateSustainabilityScore_def Let_def by (rule clamp_range)+

lemma soil_health_range:
  "0 \<le> calculateSoilHealthScore c n" "calculateSoilHealthScore c n \<le> 100"
  unfolding calculateSoilHealthScore_def Let_def by (rule clamp_range)+

lemma water_efficiency_range:
  "0 \<le> calculateWaterEfficiencyScore i n" "calculateWaterEfficiencyScore i n \<le> 100"
  unfolding calculateWaterEfficiencyScore_def Let_def by (rule clamp_range)+

section \<open>Rounding to binary64\<close>

lemma significand_scale_doubling:
  assumes "4503599627370496 \<le> m * 2 ^ j" and "m * 2 ^ j < 9007199254740992"
    and "j \<le> k" and "- 1074 \<le> e - int j"
  shows "significand_scale k m e = (m * 2 ^ j, e - int j)"
  using assms
proof (induction j arbitrary: m e k)
  case 0
  then show ?case by (cases k) simp_all
next
  case (Suc j)
  then obtain k' where k: "k = Suc k'" by (cases k) simp_all
  from Suc.prems(1) have "0 < m * 2 ^ Suc j" by linarith
  then have pos: "0 < m" by (simp add: zero_less_mult_iff)
  have "m * 2 * 1 \<le> m * 2 * 2 ^ j"
    using pos by (intro mult_left_mono) simp_all
  with Suc.prems(2) have small: "m < 4503599627370496" by (simp add: mult.assoc)
  have "significand_scale k' (m * 2) (e - 1) = (m * 2 * 2 ^ j, e - 1 - int j)"
    using Suc.prems k by (intro Suc.IH) (simp_all add: mult.assoc)
  with small Suc.prems(4) show ?case
    by (simp add: k mult.assoc)
qed

text \<open>
  Below \<open>2^53\<close> and down to the smallest normal numbers, \<open>binary64 x\<close> is \<open>x\<close> scaled by
  the power of two that brings it between \<open>2^52\<close> and \<open>2^53\<close>, rounded to an integer, and
  scaled back.
\<close>

lemma binary64_below:
  assumes "4503599627370496 \<le> x * 2 ^ j" and "x * 2 ^ j < 9007199254740992"
    and "j \<le> 1074"
  shows "binary64 x = of_int (round_half_even (x * 2 ^ j)) / 2 ^ j"
proof -
  from assms(1) have "0 < x * 2 ^ j" by linarith
  then have pos: "0 < x" by (simp add: zero_less_mult_iff)
  have "significand_scale 2200 \<bar>x\<bar> 0 = (x * 2 ^ j, - int j)"
    using significand_scale_doubling [of x j 2200 0] assms pos by simp
  with pos show ?thesis
    by (cases "j = 0") (simp_all add: binary64_def Let_def)
qed

lemma binary64_values:
  "binary64 100 = 100"
  "binary64 1 = 1"
  "binary64 (11 / 10) = 4953959590107546 / 4503599627370496"
  using binary64_below [of 100 46] binary64_below [of 1 52] binary64_below [of "11 / 10" 52]
  by (simp_all add: round_half_even_def Let_def)

lemma double_mul_100_1: "double_mul (Num 100) (Num 1) = Num 100"
  by (simp add: binary64_values)

text \<open>
  The double nearest to 1.1 lies above 1.1, and 100 times it lies above the midpoint of
  110 and the next double, \<open>110 + 2^-46\<close>: the product rounds up.
\<close>

lemma double_mul_100_11_10: "double_mul (Num 100) (Num (11 / 10)) = Num (110 + 1 / 2 ^ 46)"
proof -
  have product: "binary64 100 * binary64 (11 / 10) = 61924494876344325 / 562949953421312"
    by (simp add: binary64_values)
  have rounded: "binary64 (61924494876344325 / 562949953421312) = 110 + 1 / 2 ^ 46"
    using binary64_below [of "61924494876344325 / 562949953421312" 46]
    by (simp add: round_half_even_def Let_def)
  show ?thesis
    by (simp only: double_mul.simps product rounded)
qed

lemma base_yield_corn_loam:
  assumes "\<not> gt_opt (chain_temperature2m n) 25"
  shows "calculateBaseYield ''Corn'' ''Loam'' n = Num (110 + 1 / 2 ^ 46)"
proof -
  have "member_or (read_member cropMultipliers ''Corn'') 100 = Num 100"
    and "member_or (read_member soilMultipliers ''Loam'') 1.0 = Num 1"
    by (simp_all add: read_member_def cropMultipliers_def soilMultipliers_def)
  then show ?thesis
    unfolding calculateBaseYield_def Let_def
    using assms by (simp add: double_mul_100_1 double_mul_100_11_10 del: double_mul.simps)
qed

section \<open>The reference inputs, evaluated\<close>

lemma chains_reference:
  "chain_temperature2m reference_bundle = Some 20"
  "chain_precipitation reference_bundle = Some 15"
  "chain_soilMoistureRootZone reference_bundle = Some 0.3"
  "chain_soilMoistureSurface reference_bundle = None"
  "chain_ndvi reference_bundle = Some 0.65"
  "chain_drought reference_bundle = Some \<lparr>droughtCategory = Some ''None''\<rparr>"
  "chain_droughtCategory reference_bundle = Some ''None''"
  by (simp_all add: reference_bundle_def chain_temperature2m_def chain_precipitation_def
      chain_soilMoistureRootZone_def chain_soilMoistureSurface_def chain_ndvi_def
      chain_drought_def chain_droughtCategory_def)

lemma chains_error_answer:
  "chain_temperature2m error_answer_bundle = None"
  "chain_precipitation error_answer_bundle = None"
  "chain_soilMoistureRootZone error_answer_bundle = None"
  "chain_soilMoistureSurface error_answer_bundle = None"
  "chain_ndvi error_answer_bundle = None"
  "chain_drought error_answer_bundle = None"
  "chain_droughtCategory error_answer_bundle = None"
  by (simp_all add: error_answer_bundle_def chain_temperature2m_def chain_precipitation_def
      chain_soilMoistureRootZone_def chain_soilMoistureSurface_def chain_ndvi_def
      chain_drought_def chain_droughtCategory_def)

lemma reference_valid: "valid_FarmParameters reference_choices"
  by (simp add: valid_FarmParameters_def reference_choices_def)

lemma reference_base_yield:
  "calculateBaseYield ''Corn'' ''Loam'' reference_bundle = Num (110 + 1 / 2 ^ 46)"
  by (rule base_yield_corn_loam) (simp add: chains_reference)

lemma reference_insights:
  "generateComprehensiveInsights reference_choices reference_bundle s =
     Inr [''Livestock can provide natural fertilizer through manure'']"
  by (simp add: generateComprehensiveInsights_def drought_insight_def Let_def
      reference_choices_def chains_reference)

lemma reference_parts:
  "calculateIrrigationImpact 5 reference_bundle =
     \<lparr>irrigation_yieldBoost = 8, waterEfficiency = 1\<rparr>"
  "calculateFertilizerImpact 15 ''Loam'' = \<lparr>fertilizer_yieldBoost = Num 6, soilImpact = - 2\<rparr>"
  "calculateLivestockImpact 2 reference_bundle =
     \<lparr>yieldReduction = 1, livestock_soilCompaction = 4\<rparr>"
  "calculateSustainabilityScore reference_choices reference_bundle = 100"
  "calculateSoilHealthScore reference_choices reference_bundle = 76"
  "calculateWaterEfficiencyScore 5 reference_bundle = 100"
  "calculateCarbonFootprint reference_choices = 293"
  "calculateEconomicViability reference_choices (Num (123 + 1 / 2 ^ 46)) = Num 0"
  by (simp_all add: calculateIrrigationImpact_def calculateFertilizerImpact_def
      calculateLivestockImpact_def calculateSustainabilityScore_def
      calculateSoilHealthScore_def calculateWaterEfficiencyScore_def
      calculateCarbonFootprint_def calculateEconomicViability_def Let_def
      read_member_def soilNutrientRetention_def Math_round_def
      reference_choices_def chains_reference)


lemma reference_selectors:
  "irrigationMmPerDay reference_choices = 5"
  "fertilizerKgPerHa reference_choices = 15"
  "livestockDensityPerHa reference_choices = 2"
  "cropType reference_choices = Some ''Corn''"
  "soilType reference_choices = Some ''Loam''"
  by (simp_all add: reference_choices_def)

lemma reference_recommendations:
  "scores_waterEfficiencyScore s = 100 \<Longrightarrow>
     generateDetailedRecommendations reference_choices reference_bundle s = []"
  by (simp add: generateDetailedRecommendations_def Let_def reference_selectors)

section \<open>When the simulation returns, and what it returns\<close>

lemma drought_insight_None:
  "chain_drought n = None \<Longrightarrow> drought_insight n xs = Inl TypeError"
  by (simp add: drought_insight_def chain_droughtCategory_def)

lemma drought_insight_Some:
  "chain_drought n = Some d \<Longrightarrow> \<exists>ys. drought_insight n xs = Inr ys"
  by (simp add: drought_insight_def)

lemma insights_None:
  "chain_drought n = None \<Longrightarrow> generateComprehensiveInsights c n s = Inl TypeError"
  unfolding generateComprehensiveInsights_def Let_def
  by (simp add: drought_insight_None split del: if_split)

lemma insights_Some:
  assumes "chain_drought n = Some d"
  shows "\<exists>ys. generateComprehensiveInsights c n s = Inr ys"
proof -
  have "\<exists>zs g. generateComprehensiveInsights c n s =
      (case drought_insight n zs of Inl e \<Rightarrow> Inl e | Inr i \<Rightarrow> Inr (g i))"
    unfolding generateComprehensiveInsights_def Let_def by (intro exI) (rule refl)
  then obtain zs g where gen: "generateComprehensiveInsights c n s =
      (case drought_insight n zs of Inl e \<Rightarrow> Inl e | Inr i \<Rightarrow> Inr (g i))"
    by blast
  obtain ys where "drought_insight n zs = Inr ys"
    using drought_insight_Some [OF assms] by blast
  with gen show ?thesis by simp
qed

lemma run_None:
  "chain_drought n = None \<Longrightarrow> runComprehensiveSimulation c n = Inl TypeError"
  unfolding runComprehensiveSimulation_def Let_def
  by (simp add: insights_None split del: if_split)

lemma run_Some:
  assumes "chain_drought n = Some d"
  shows "\<exists>r. runComprehensiveSimulation c n = Inr r"
proof -
  have "\<exists>S g. runComprehensiveSimulation c n =
      (case generateComprehensiveInsights c n S of Inl e \<Rightarrow> Inl e | Inr i \<Rightarrow> Inr (g i))"
    unfolding runComprehensiveSimulation_def Let_def by (intro exI) (rule refl)
  then obtain S g where run: "runComprehensiveSimulation c n =
      (case generateComprehensiveInsights c n S of Inl e \<Rightarrow> Inl e | Inr i \<Rightarrow> Inr (g i))"
    by blast
  obtain ys where "generateComprehensiveInsights c n S = Inr ys"
    using insights_Some [OF assms] by blast
  with run show ?thesis by simp
qed

lemma case_sum_Inr:
  "(case x of Inl e \<Rightarrow> Inl e | Inr i \<Rightarrow> Inr (g i)) = Inr r \<Longrightarrow> \<exists>i. x = Inr i \<and> r = g i"
  by (cases x) auto

lemma run_scores:
  assumes "runComprehensiveSimulation c n = Inr r"
  shows "sustainabilityScore r = Math_round (calculateSustainabilityScore c n)"
    and "soilHealthScore r = Math_round (calculateSoilHealthScore c n)"
    and "waterEfficiencyScore r =
           Math_round (calculateWaterEfficiencyScore (irrigationMmPerDay c) n)"
    and "carbonFootprint r = Math_round (calculateCarbonFootprint c)"
  using case_sum_Inr [OF assms [unfolded runComprehensiveSimulation_def Let_def]]
  by auto

lemma run_yield:
  assumes "runComprehensiveSimulation c n = Inr r"
  shows "yieldScore r =
           num_round (Math_max (Num 0)
             (num_sub
               (num_add
                 (num_add
                   (calculateBaseYield (or_string (cropType c) ''Corn'')
                      (or_string (soilType c) ''Loam'') n)
                   (Num (irrigation_yieldBoost
                           (calculateIrrigationImpact (irrigationMmPerDay c) n))))
                 (fertilizer_yieldBoost
                    (calculateFertilizerImpact (fertilizerKgPerHa c)
                       (or_string (soilType c) ''Loam''))))
               (Num (yieldReduction
                       (calculateLivestockImpact (livestockDensityPerHa c) n)))))"
  using case_sum_Inr [OF assms [unfolded runComprehensiveSimulation_def Let_def]]
  by auto

lemma run_recommendations:
  assumes "runComprehensiveSimulation c n = Inr r"
  shows "\<exists>s. recommendations r = generateDetailedRecommendations c n s
             \<and> scores_waterEfficiencyScore s =
                 calculateWaterEfficiencyScore (irrigationMmPerDay c) n"
  using case_sum_Inr [OF assms [unfolded runComprehensiveSimulation_def Let_def]]
  by auto

lemma member_or_listed:
  "map_of table k = Some v \<Longrightarrow> member_or (read_member table k) d = Num (if v = 0 then d else v)"
  by (simp add: read_member_def)

lemma listed_member:
  assumes "k \<in> fst ` set table"
  shows "\<exists>v. \<forall>d. member_or (read_member table k) d = Num (if v = 0 then d else v)"
proof -
  from assms have "map_of table k \<noteq> None"
    by (simp add: map_of_eq_None_iff)
  then obtain v where "map_of table k = Some v" by blast
  then have "\<forall>d. member_or (read_member table k) d = Num (if v = 0 then d else v)"
    by (simp add: member_or_listed)
  then show ?thesis by (rule exI)
qed

lemma table_names:
  "fst ` set cropMultipliers = set [''Corn'', ''Wheat'', ''Soybeans'', ''Rice'']"
  "fst ` set soilMultipliers = set [''Loam'', ''Clay'', ''Sand'', ''Silt'']"
  "fst ` set soilNutrientRetention = set [''Loam'', ''Clay'', ''Sand'', ''Silt'']"
  by (simp_all add: cropMultipliers_def soilMultipliers_def soilNutrientRetention_def)

lemma listed_not_empty:
  "k \<in> set [''Corn'', ''Wheat'', ''Soybeans'', ''Rice''] \<Longrightarrow> k \<noteq> []"
  "k \<in> set [''Loam'', ''Clay'', ''Sand'', ''Silt''] \<Longrightarrow> k \<noteq> []"
  by auto


lemma listedE: "listed x names \<Longrightarrow> \<exists>k. x = Some k \<and> k \<in> set names"
  by (cases x) simp_all

lemma valid_yield_is_number:
  assumes "valid_FarmParameters c"
  shows "\<exists>b. calculateBaseYield (or_string (cropType c) ''Corn'')
                (or_string (soilType c) ''Loam'') n = Num b"
    and "\<exists>b. fertilizer_yieldBoost
                (calculateFertilizerImpact (fertilizerKgPerHa c)
                   (or_string (soilType c) ''Loam'')) = Num b"
proof -
  from assms have "listed (cropType c) [''Corn'', ''Wheat'', ''Soybeans'', ''Rice'']"
    and "listed (soilType c) [''Loam'', ''Clay'', ''Sand'', ''Silt'']"
    unfolding valid_FarmParameters_def by blast+
  then obtain k l where k: "cropType c = Some k"
      "k \<in> set [''Corn'', ''Wheat'', ''Soybeans'', ''Rice'']"
    and l: "soilType c = Some l" "l \<in> set [''Loam'', ''Clay'', ''Sand'', ''Silt'']"
    using listedE by blast
  obtain v where v: "\<And>d. member_or (read_member cropMultipliers k) d = Num (if v = 0 then d else v)"
    using listed_member [of k cropMultipliers] k(2) unfolding table_names by blast
  obtain w where w: "\<And>d. member_or (read_member soilMultipliers l) d = Num (if w = 0 then d else w)"
    using listed_member [of l soilMultipliers] l(2) unfolding table_names by blast
  obtain u where u: "\<And>d. member_or (read_member soilNutrientRetention l) d = Num (if u = 0 then d else u)"
    using listed_member [of l soilNutrientRetention] l(2) unfolding table_names by blast
  have ks: "or_string (cropType c) ''Corn'' = k" "or_string (soilType c) ''Loam'' = l"
    using k(1) l(1) listed_not_empty(1) [OF k(2)] listed_not_empty(2) [OF l(2)] by simp_all
  show "\<exists>b. calculateBaseYield (or_string (cropType c) ''Corn'')
                (or_string (soilType c) ''Loam'') n = Num b"
    unfolding ks calculateBaseYield_def Let_def
    by (simp add: v w split del: if_split)
  show "\<exists>b. fertilizer_yieldBoost
                (calculateFertilizerImpact (fertilizerKgPerHa c)
                   (or_string (soilType c) ''Loam'')) = Num b"
    unfolding ks calculateFertilizerImpact_def Let_def
    by (simp add: u split del: if_split)
qed

lemma yield_not_negative:
  assumes "valid_FarmParameters c" and "runComprehensiveSimulation c n = Inr r"
  shows "score_not_negative (yieldScore r)"
proof -
  obtain b where b: "calculateBaseYield (or_string (cropType c) ''Corn'')
                (or_string (soilType c) ''Loam'') n = Num b"
    using valid_yield_is_number(1) [OF assms(1)] by blast
  obtain f where f: "fertilizer_yieldBoost
                (calculateFertilizerImpact (fertilizerKgPerHa c)
                   (or_string (soilType c) ''Loam'')) = Num f"
    using valid_yield_is_number(2) [OF assms(1)] by blast
  show ?thesis
    unfolding run_yield [OF assms(2)] b f by (simp add: Math_round_nonneg)
qed

lemma run_economic:
  assumes "runComprehensiveSimulation c n = Inr r"
  shows "economicViability r =
           num_round (calculateEconomicViability c
             (Math_max (Num 0)
               (num_sub
                 (num_add
                   (num_add
                     (calculateBaseYield (or_string (cropType c) ''Corn'')
                        (or_string (soilType c) ''Loam'') n)
                     (Num (irrigation_yieldBoost
                             (calculateIrrigationImpact (irrigationMmPerDay c) n))))
                   (fertilizer_yieldBoost
                      (calculateFertilizerImpact (fertilizerKgPerHa c)
                         (or_string (soilType c) ''Loam''))))
                 (Num (yieldReduction
                         (calculateLivestockImpact (livestockDensityPerHa c) n))))))"
  using case_sum_Inr [OF assms [unfolded runComprehensiveSimulation_def Let_def]]
  by auto

lemma run_insights:
  assumes "runComprehensiveSimulation c n = Inr r"
  shows "\<exists>s. generateComprehensiveInsights c n s = Inr (insights r)"
  using case_sum_Inr [OF assms [unfolded runComprehensiveSimulation_def Let_def]]
  by auto

text \<open>The simulation reads the bundle through the optional chains only.\<close>

lemma readings_congruence:
  assumes "same_readings a b"
  shows "calculateBaseYield k l a = calculateBaseYield k l b"
    and "calculateIrrigationImpact i a = calculateIrrigationImpact i b"
    and "calculateLivestockImpact i a = calculateLivestockImpact i b"
    and "calculateSustainabilityScore c a = calculateSustainabilityScore c b"
    and "calculateSoilHealthScore c a = calculateSoilHealthScore c b"
    and "calculateWaterEfficiencyScore i a = calculateWaterEfficiencyScore i b"
    and "generateComprehensiveInsights c a s = generateComprehensiveInsights c b s"
    and "generateDetailedRecommendations c a s = generateDetailedRecommendations c b s"
    and "analyzeLivestockEffects i a = analyzeLivestockEffects i b"
    and "analyzeIrrigationEffects i a = analyzeIrrigationEffects i b"
    and "analyzeSoilHealth c a = analyzeSoilHealth c b"
proof -
  from assms have eq: "chain_temperature2m a = chain_temperature2m b"
      "chain_precipitation a = chain_precipitation b"
      "chain_soilMoistureRootZone a = chain_soilMoistureRootZone b"
      "chain_soilMoistureSurface a = chain_soilMoistureSurface b"
      "chain_ndvi a = chain_ndvi b"
      "chain_drought a = chain_drought b"
    unfolding same_readings_def by blast+
  show "calculateBaseYield k l a = calculateBaseYield k l b"
    unfolding calculateBaseYield_def eq ..
  show "calculateIrrigationImpact i a = calculateIrrigationImpact i b"
    unfolding calculateIrrigationImpact_def eq ..
  show "calculateLivestockImpact i a = calculateLivestockImpact i b"
    unfolding calculateLivestockImpact_def ..
  show "calculateSustainabilityScore c a = calculateSustainabilityScore c b"
    unfolding calculateSustainabilityScore_def eq ..
  show "calculateSoilHealthScore c a = calculateSoilHealthScore c b"
    unfolding calculateSoilHealthScore_def eq ..
  show "calculateWaterEfficiencyScore i a = calculateWaterEfficiencyScore i b"
    unfolding calculateWaterEfficiencyScore_def eq ..
  show "generateComprehensiveInsights c a s = generateComprehensiveInsights c b s"
    unfolding generateComprehensiveInsights_def drought_insight_def
      chain_droughtCategory_def eq ..
  show "generateDetailedRecommendations c a s = generateDetailedRecommendations c b s"
    unfolding generateDetailedRecommendations_def ..
  show "analyzeLivestockEffects i a = analyzeLivestockEffects i b"
    unfolding analyzeLivestockEffects_def ..
  show "analyzeIrrigationEffects i a = analyzeIrrigationEffects i b"
    unfolding analyzeIrrigationEffects_def eq ..
  show "analyzeSoilHealth c a = analyzeSoilHealth c b"
    unfolding analyzeSoilHealth_def eq ..
qed

lemma run_congruence:
  assumes "same_readings a b"
  shows "runComprehensiveSimulation c a = runComprehensiveSimulation c b"
  unfolding runComprehensiveSimulation_def readings_congruence [OF assms] ..

text \<open>
  The reference input with a bundle that has the four readings of the worked example
  and a drought object: the simulation returns, and the six scores and the
  recommendations do not depend on anything else in the bundle.
\<close>

lemma four_readings_result:
  assumes "chain_temperature2m n = Some 20"
    and "chain_soilMoistureRootZone n = Some 0.3"
    and "chain_precipitation n = Some 15"
    and "chain_ndvi n = Some 0.65"
    and "chain_drought n = Some d"
  shows "\<exists>r. runComprehensiveSimulation reference_choices n = Inr r
             \<and> yieldScore r = Num 123 \<and> sustainabilityScore r = 100
             \<and> soilHealthScore r = 76 \<and> waterEfficiencyScore r = 100
             \<and> carbonFootprint r = 293 \<and> economicViability r = Num 0
             \<and> recommendations r = []"
proof -
  obtain r where run: "runComprehensiveSimulation reference_choices n = Inr r"
    using run_Some [OF assms(5)] by blast
  have base: "calculateBaseYield ''Corn'' ''Loam'' n = Num (110 + 1 / 2 ^ 46)"
    by (rule base_yield_corn_loam) (simp add: assms)
  have "yieldScore r = Num 123"
    unfolding run_yield [OF run] reference_selectors
    by (simp add: base calculateIrrigationImpact_def calculateFertilizerImpact_def
        calculateLivestockImpact_def Let_def read_member_def soilNutrientRetention_def
        Math_round_def assms)
  moreover have "sustainabilityScore r = 100"
    unfolding run_scores(1) [OF run]
    by (simp add: calculateSustainabilityScore_def Let_def reference_selectors assms
        Math_round_def)
  moreover have "soilHealthScore r = 76"
    unfolding run_scores(2) [OF run]
    by (simp add: calculateSoilHealthScore_def Let_def reference_selectors assms
        Math_round_def)
  moreover have water: "calculateWaterEfficiencyScore 5 n = 100"
    by (simp add: calculateWaterEfficiencyScore_def Let_def assms)
  moreover have "waterEfficiencyScore r = 100"
    unfolding run_scores(3) [OF run] reference_selectors water
    by (simp add: Math_round_def)
  moreover have "economicViability r = Num 0"
    unfolding run_economic [OF run] reference_selectors
    by (simp add: base calculateIrrigationImpact_def calculateFertilizerImpact_def
        calculateLivestockImpact_def calculateEconomicViability_def Let_def
        read_member_def soilNutrientRetention_def Math_round_def assms
        reference_selectors)
  moreover have "carbonFootprint r = 293"
    unfolding run_scores(4) [OF run] reference_parts by (simp add: Math_round_def)
  moreover have "recommendations r = []"
  proof -
    obtain s where s: "recommendations r
          = generateDetailedRecommendations reference_choices n s"
        "scores_waterEfficiencyScore s
          = calculateWaterEfficiencyScore (irrigationMmPerDay reference_choices) n"
      using run_recommendations [OF run] by blast
    show ?thesis
      unfolding s(1)
      by (simp add: generateDetailedRecommendations_def Let_def s(2) reference_selectors
          water)
  qed
  ultimately show ?thesis using run by blast
qed

lemma reference_result:
  "\<exists>r. runComprehensiveSimulation reference_choices reference_bundle = Inr r
       \<and> yieldScore r = Num 123 \<and> sustainabilityScore r = 100
       \<and> soilHealthScore r = 76 \<and> waterEfficiencyScore r = 100
       \<and> carbonFootprint r = 293 \<and> economicViability r = Num 0
       \<and> insights r = [''Livestock can provide natural fertilizer through manure'']
       \<and> recommendations r = []"
proof -
  obtain r where r: "runComprehensiveSimulation reference_choices reference_bundle = Inr r"
      "yieldScore r = Num 123" "sustainabilityScore r = 100" "soilHealthScore r = 76"
      "waterEfficiencyScore r = 100" "carbonFootprint r = 293"
      "economicViability r = Num 0" "recommendations r = []"
    using four_readings_result [OF chains_reference(1,3,2,5,6)] by blast
  have "insights r = [''Livestock can provide natural fertilizer through manure'']"
    using run_insights [OF r(1)] by (simp add: reference_insights)
  with r show ?thesis by blast
qed

text \<open>
  The insights are not fixed by the four readings: they also depend on the drought
  category.
\<close>

lemma drought_result:
  "\<exists>r. runComprehensiveSimulation reference_choices drought_bundle = Inr r
       \<and> yieldScore r = Num 123
       \<and> insights r =
           [''Livestock can provide natural fertilizer through manure'',
            ''Drought conditions detected (Severe Drought) - prioritize water conservation'']"
proof -
  have chains: "chain_temperature2m drought_bundle = Some 20"
      "chain_soilMoistureRootZone drought_bundle = Some 0.3"
      "chain_precipitation drought_bundle = Some 15"
      "chain_ndvi drought_bundle = Some 0.65"
      "chain_drought drought_bundle = Some \<lparr>droughtCategory = Some ''Severe Drought''\<rparr>"
    by (simp_all add: drought_bundle_def chain_temperature2m_def chain_precipitation_def
        chain_soilMoistureRootZone_def chain_ndvi_def chain_drought_def)
  obtain r where r: "runComprehensiveSimulation reference_choices drought_bundle = Inr r"
      "yieldScore r = Num 123"
    using four_readings_result [OF chains] by blast
  have "generateComprehensiveInsights reference_choices drought_bundle s =
      Inr [''Livestock can provide natural fertilizer through manure'',
           ''Drought conditions detected (Severe Drought) - prioritize water conservation'']"
    for s
    by (simp add: generateComprehensiveInsights_def drought_insight_def Let_def
        reference_choices_def chain_droughtCategory_def template_string_def chains)
  then have "insights r =
      [''Livestock can provide natural fertilizer through manure'',
       ''Drought conditions detected (Severe Drought) - prioritize water conservation'']"
    using run_insights [OF r(1)] by simp
  with r show ?thesis by blast
qed

text \<open>
  With the four readings and nothing else the insight generator throws, and the
  simulation has no result.
\<close>

lemma four_readings_only:
  "runComprehensiveSimulation reference_choices four_readings_bundle = Inl TypeError"
  by (rule run_None) (simp add: four_readings_bundle_def chain_drought_def)

section \<open>The range of the four scores\<close>

text \<open>
  Claim C1, as the specification states it: for valid farm parameters all four scores of
  the result lie between 0 and 100. The yield score does not: the code bounds it below
  only, and the reference input, which is valid, has yield score 123.
\<close>

theorem yield_score_exceeds_100:
  "valid_FarmParameters reference_choices
   \<and> map_sum id yieldScore (runComprehensiveSimulation reference_choices reference_bundle)
       = Inr (Num 123)
   \<and> \<not> score_in_range (Num 123)"
  using reference_result by (auto simp add: reference_valid)

text \<open>
  Claim C1, amended. For valid farm parameters and every environmental bundle, the
  simulation returns a result whenever the bundle carries a drought object, and in every
  result it returns the sustainability, soil health and water efficiency scores lie
  between 0 and 100, while the yield score is a number that is not negative (it may
  exceed 100).
\<close>

theorem simulation_scores_range:
  assumes "valid_FarmParameters choices"
  shows "(chain_drought nasaData \<noteq> None
            \<longrightarrow> (\<exists>r. runComprehensiveSimulation choices nasaData = Inr r))
         \<and> (\<forall>r. runComprehensiveSimulation choices nasaData = Inr r \<longrightarrow>
               score_not_negative (yieldScore r)
               \<and> 0 \<le> sustainabilityScore r \<and> sustainabilityScore r \<le> 100
               \<and> 0 \<le> soilHealthScore r \<and> soilHealthScore r \<le> 100
               \<and> 0 \<le> waterEfficiencyScore r \<and> waterEfficiencyScore r \<le> 100)"
proof (intro conjI impI allI)
  assume "chain_drought nasaData \<noteq> None"
  then show "\<exists>r. runComprehensiveSimulation choices nasaData = Inr r"
    using run_Some by blast
next
  fix r assume run: "runComprehensiveSimulation choices nasaData = Inr r"
  show "score_not_negative (yieldScore r)"
    using yield_not_negative [OF assms run] .
  show "0 \<le> sustainabilityScore r" "sustainabilityScore r \<le> 100"
    unfolding run_scores(1) [OF run]
    by (rule Math_round_range [OF sustainability_range])+
  show "0 \<le> soilHealthScore r" "soilHealthScore r \<le> 100"
    unfolding run_scores(2) [OF run]
    by (rule Math_round_range [OF soil_health_range])+
  show "0 \<le> waterEfficiencyScore r" "waterEfficiencyScore r \<le> 100"
    unfolding run_scores(3) [OF run]
    by (rule Math_round_range [OF water_efficiency_range])+
qed

text \<open>
  Claim C1, amended, at the reference input: the parameters are valid, the bundle has a
  drought object, the simulation returns, and the three bounded scores are 100, 76 and
  100.
\<close>

theorem simulation_scores_range_witness:
  "valid_FarmParameters reference_choices
   \<and> chain_drought reference_bundle \<noteq> None
   \<and> (\<exists>r. runComprehensiveSimulation reference_choices reference_bundle = Inr r)
   \<and> map_sum id sustainabilityScore
         (runComprehensiveSimulation reference_choices reference_bundle) = Inr 100
   \<and> map_sum id soilHealthScore
         (runComprehensiveSimulation reference_choices reference_bundle) = Inr 76
   \<and> map_sum id waterEfficiencyScore
         (runComprehensiveSimulation reference_choices reference_bundle) = Inr 100"
  using simulation_scores_range [OF reference_valid, of reference_bundle] reference_result
  by (auto simp add: reference_valid chains_reference)

section \<open>The sustainability score\<close>

lemma deduct_step:
  "(if p then (s::real) - a else if q then s - b else s)
     = s - (if p then a else if q then b else 0)"
  by simp

lemma bonus_step: "(if p then (s::real) + a else s) = s + (if p then a else 0)"
  by simp

text \<open>
  Claim C4. For every choice of farm parameters and every environmental bundle, the
  sustainability score is 100, less 15 when irrigation exceeds 8 (less 8 when it only
  exceeds 5), less 20 when fertilizer exceeds 30 (less 10 when it only exceeds 20), less
  10 when livestock exceeds 5 (less 5 when it only exceeds 3), plus 5 when the
  vegetation index exceeds 0.7, plus 3 when the root-zone soil moisture exceeds 0.3, the
  whole clamped to the interval from 0 to 100. A reading the bundle lacks earns no
  bonus.
\<close>

theorem sustainability_score_formula:
  "calculateSustainabilityScore choices nasaData =
     sustainability_spec (irrigationMmPerDay choices) (fertilizerKgPerHa choices)
       (livestockDensityPerHa choices) (chain_ndvi nasaData)
       (chain_soilMoistureRootZone nasaData)"
  unfolding calculateSustainabilityScore_def sustainability_spec_def Let_def
  by (simp only: deduct_step bonus_step)

section \<open>The soil health score\<close>

text \<open>
  Claim C7. For every fertilizer amount above 25, with the other parameters and the
  bundle fixed, the soil health score is at most the soil health score at fertilizer 15;
  the same holds of the rounded scores of the result.
\<close>

theorem soil_health_fertilizer_monotone:
  assumes "f > 25"
  shows "calculateSoilHealthScore (choices\<lparr>fertilizerKgPerHa := f\<rparr>) nasaData
           \<le> calculateSoilHealthScore (choices\<lparr>fertilizerKgPerHa := 15\<rparr>) nasaData
         \<and> Math_round (calculateSoilHealthScore (choices\<lparr>fertilizerKgPerHa := f\<rparr>) nasaData)
           \<le> Math_round
                (calculateSoilHealthScore (choices\<lparr>fertilizerKgPerHa := 15\<rparr>) nasaData)"
proof -
  have "calculateSoilHealthScore (choices\<lparr>fertilizerKgPerHa := f\<rparr>) nasaData
          \<le> calculateSoilHealthScore (choices\<lparr>fertilizerKgPerHa := 15\<rparr>) nasaData"
    unfolding calculateSoilHealthScore_def Let_def
    using assms by (intro clamp_mono) simp
  then show ?thesis
    by (simp add: Math_round_mono)
qed

theorem soil_health_fertilizer_monotone_witness:
  "(30::real) > 25
   \<and> calculateSoilHealthScore (reference_choices\<lparr>fertilizerKgPerHa := 30\<rparr>) reference_bundle
       = 66
   \<and> calculateSoilHealthScore (reference_choices\<lparr>fertilizerKgPerHa := 15\<rparr>) reference_bundle
       = 76
   \<and> calculateSoilHealthScore (reference_choices\<lparr>fertilizerKgPerHa := 30\<rparr>) reference_bundle
       \<le> calculateSoilHealthScore (reference_choices\<lparr>fertilizerKgPerHa := 15\<rparr>)
            reference_bundle"
  using soil_health_fertilizer_monotone [of 30 reference_choices reference_bundle]
  by (simp add: calculateSoilHealthScore_def Let_def reference_choices_def chains_reference)

section \<open>The irrigation impact\<close>

text \<open>
  Claim C5, as the specification states it: the efficiency is 0.8 when the root-zone
  soil moisture exceeds 0.25 and 0.6 otherwise. With a bundle that has no root-zone
  reading the code uses 0.3 in its place, so the efficiency is 0.8: at irrigation 5 the
  yield boost is 8, where the statement gives 6.
\<close>

theorem irrigation_efficiency_absent_reading:
  "chain_soilMoistureRootZone error_answer_bundle = None
   \<and> irrigation_yieldBoost (calculateIrrigationImpact 5 error_answer_bundle) = 8
   \<and> claimed_yieldBoost 5 (chain_soilMoistureRootZone error_answer_bundle) = 6"
  by (simp add: calculateIrrigationImpact_def Let_def chains_error_answer
      claimed_yieldBoost_def claimed_efficiency_def)

text \<open>
  Claim C5, amended. For every irrigation amount that is not negative and every bundle
  whose root-zone reading is absent or is a number other than 0, the yield boost is the
  smaller of irrigation times 2 times the efficiency and 20, where the efficiency is 0.8
  when the reading is absent or exceeds 0.25 and 0.6 otherwise; the water-efficiency
  multiplier is 1 up to 5 mm a day and, above, the larger of 0.5 and
  1 - (irrigation - 5) * 0.1.
\<close>

theorem irrigation_impact_with_default:
  assumes "0 \<le> irrigation" and "chain_soilMoistureRootZone nasaData \<noteq> Some 0"
  shows "irrigation_yieldBoost (calculateIrrigationImpact irrigation nasaData)
           = min (irrigation * 2
                  * efficiency_with_default (chain_soilMoistureRootZone nasaData)) 20
         \<and> waterEfficiency (calculateIrrigationImpact irrigation nasaData)
           = claimed_waterEfficiency irrigation"
proof (cases "chain_soilMoistureRootZone nasaData")
  case None
  with assms(1) show ?thesis
    by (simp add: calculateIrrigationImpact_def Let_def claimed_waterEfficiency_def
        efficiency_with_default_def)
next
  case (Some m)
  with assms show ?thesis
    by (simp add: calculateIrrigationImpact_def Let_def claimed_waterEfficiency_def
        efficiency_with_default_def)
qed

text \<open>
  Claim C5, amended, at irrigation 8 with the reference bundle (reading 0.3): the boost
  is 12.8 and the multiplier 0.7.
\<close>

theorem irrigation_impact_with_default_witness:
  "(0::real) \<le> 8 \<and> chain_soilMoistureRootZone reference_bundle \<noteq> Some 0
   \<and> irrigation_yieldBoost (calculateIrrigationImpact 8 reference_bundle) = 12.8
   \<and> waterEfficiency (calculateIrrigationImpact 8 reference_bundle) = 0.7"
  using irrigation_impact_with_default [of 8 reference_bundle]
  by (simp add: chains_reference efficiency_with_default_def claimed_waterEfficiency_def)

text \<open>
  A reading of exactly 0 is falsy, so the code replaces it by 0.3 as well and gives the
  efficiency 0.8 to the driest soil.
\<close>

lemma irrigation_zero_reading:
  "chain_soilMoistureRootZone n = Some 0 \<Longrightarrow>
     irrigation_yieldBoost (calculateIrrigationImpact 5 n) = 8
     \<and> claimed_yieldBoost 5 (chain_soilMoistureRootZone n) = 6"
  by (simp add: calculateIrrigationImpact_def Let_def claimed_yieldBoost_def
      claimed_efficiency_def)

section \<open>The recommendations\<close>

lemma count_step:
  "count_list (map category (if p then rs @ [r] else rs)) k =
     count_list (map category rs) k + (if p \<and> category r = k then 1 else 0)"
  by (induction rs) simp_all

lemma recommendation_counts:
  "count_list (map category (generateDetailedRecommendations c n s)) ''Water Management''
     = (if scores_waterEfficiencyScore s < 70 then 1 else 0)"
  "count_list (map category (generateDetailedRecommendations c n s)) ''Nutrient Management''
     = (if fertilizerKgPerHa c > 20 then 1 else 0)"
  "count_list (map category (generateDetailedRecommendations c n s)) ''Livestock Management''
     = (if livestockDensityPerHa c > 3 then 1 else 0)"
  unfolding generateDetailedRecommendations_def Let_def count_step
  by simp_all

text \<open>
  Claim C6. The recommendation generator emits one Water Management record when the
  water-efficiency score it is given is below 70 and none otherwise, one Nutrient
  Management record when fertilizer exceeds 20 and none otherwise, one Livestock
  Management record when the livestock density exceeds 3 and none otherwise. In a
  result of the simulation the score it is given is the water-efficiency score before
  rounding. Both generators are functions of their inputs: equal inputs give equal
  insight and recommendation lists.
\<close>

theorem recommendations_by_threshold:
  "count_list (map category (generateDetailedRecommendations choices nasaData s))
       ''Water Management''
     = (if scores_waterEfficiencyScore s < 70 then 1 else 0)
   \<and> count_list (map category (generateDetailedRecommendations choices nasaData s))
       ''Nutrient Management''
     = (if fertilizerKgPerHa choices > 20 then 1 else 0)
   \<and> count_list (map category (generateDetailedRecommendations choices nasaData s))
       ''Livestock Management''
     = (if livestockDensityPerHa choices > 3 then 1 else 0)
   \<and> (\<forall>r. runComprehensiveSimulation choices nasaData = Inr r \<longrightarrow>
         count_list (map category (recommendations r)) ''Water Management''
           = (if calculateWaterEfficiencyScore (irrigationMmPerDay choices) nasaData < 70
              then 1 else 0)
         \<and> count_list (map category (recommendations r)) ''Nutrient Management''
           = (if fertilizerKgPerHa choices > 20 then 1 else 0)
         \<and> count_list (map category (recommendations r)) ''Livestock Management''
           = (if livestockDensityPerHa choices > 3 then 1 else 0))
   \<and> (choices' = choices \<and> nasaData' = nasaData \<and> s' = s \<longrightarrow>
         generateDetailedRecommendations choices' nasaData' s'
           = generateDetailedRecommendations choices nasaData s
         \<and> generateComprehensiveInsights choices' nasaData' s'
           = generateComprehensiveInsights choices nasaData s)"
proof (intro conjI allI impI)
  fix r assume run: "runComprehensiveSimulation choices nasaData = Inr r"
  then obtain t where t: "recommendations r = generateDetailedRecommendations choices nasaData t"
      "scores_waterEfficiencyScore t
         = calculateWaterEfficiencyScore (irrigationMmPerDay choices) nasaData"
    using run_recommendations by blast
  show "count_list (map category (recommendations r)) ''Water Management''
           = (if calculateWaterEfficiencyScore (irrigationMmPerDay choices) nasaData < 70
              then 1 else 0)"
    unfolding t(1) recommendation_counts(1) t(2) ..
  show "count_list (map category (recommendations r)) ''Nutrient Management''
           = (if fertilizerKgPerHa choices > 20 then 1 else 0)"
    unfolding t(1) by (rule recommendation_counts(2))
  show "count_list (map category (recommendations r)) ''Livestock Management''
           = (if livestockDensityPerHa choices > 3 then 1 else 0)"
    unfolding t(1) by (rule recommendation_counts(3))
qed (simp_all only: recommendation_counts)

lemma intensive_water_efficiency:
  "calculateWaterEfficiencyScore (irrigationMmPerDay intensive_choices) reference_bundle = 60"
  by (simp add: calculateWaterEfficiencyScore_def Let_def intensive_choices_def
      chains_reference)

text \<open>
  Claim C6 at an input that crosses the three thresholds (irrigation 12, fertilizer 25,
  livestock 4; water-efficiency score 60): the simulation returns and the result holds
  one record of each category.
\<close>

theorem recommendations_by_threshold_witness:
  "(\<exists>r. runComprehensiveSimulation intensive_choices reference_bundle = Inr r
        \<and> count_list (map category (recommendations r)) ''Water Management'' = 1
        \<and> count_list (map category (recommendations r)) ''Nutrient Management'' = 1
        \<and> count_list (map category (recommendations r)) ''Livestock Management'' = 1)
   \<and> map category
         (generateDetailedRecommendations intensive_choices reference_bundle sample_scores)
       = [''Water Management'', ''Nutrient Management'', ''Livestock Management'']"
proof -
  obtain r where r: "runComprehensiveSimulation intensive_choices reference_bundle = Inr r"
    using run_Some [OF chains_reference(6)] by blast
  have "count_list (map category (recommendations r)) ''Water Management'' = 1
        \<and> count_list (map category (recommendations r)) ''Nutrient Management'' = 1
        \<and> count_list (map category (recommendations r)) ''Livestock Management'' = 1"
    using recommendations_by_threshold
            [of intensive_choices reference_bundle sample_scores
                intensive_choices reference_bundle sample_scores] r
    by (simp add: intensive_water_efficiency) (simp add: intensive_choices_def)
  moreover have "map category
         (generateDetailedRecommendations intensive_choices reference_bundle sample_scores)
       = [''Water Management'', ''Nutrient Management'', ''Livestock Management'']"
    by (simp add: generateDetailedRecommendations_def Let_def intensive_choices_def
        sample_scores_def)
  ultimately show ?thesis using r by blast
qed

text \<open>
  The score compared with 70 is the one before rounding: at irrigation 10.8 it is 69.6,
  the record is emitted, and the result shows the rounded score 70.
\<close>

lemma borderline_water_efficiency:
  "\<exists>r. runComprehensiveSimulation borderline_choices reference_bundle = Inr r
       \<and> waterEfficiencyScore r = 70
       \<and> count_list (map category (recommendations r)) ''Water Management'' = 1"
proof -
  have w: "calculateWaterEfficiencyScore (irrigationMmPerDay borderline_choices)
             reference_bundle = 69.6"
    by (simp add: calculateWaterEfficiencyScore_def Let_def borderline_choices_def
        reference_choices_def chains_reference)
  obtain r where r: "runComprehensiveSimulation borderline_choices reference_bundle = Inr r"
    using run_Some [OF chains_reference(6)] by blast
  obtain t where t: "recommendations r
        = generateDetailedRecommendations borderline_choices reference_bundle t"
      "scores_waterEfficiencyScore t
        = calculateWaterEfficiencyScore (irrigationMmPerDay borderline_choices)
            reference_bundle"
    using run_recommendations [OF r] by blast
  have "waterEfficiencyScore r = 70"
    unfolding run_scores(3) [OF r] w by (simp add: Math_round_def)
  moreover have "count_list (map category (recommendations r)) ''Water Management'' = 1"
    unfolding t(1) recommendation_counts(1) t(2) w by simp
  ultimately show ?thesis using r by blast
qed

section \<open>The worked example\<close>

text \<open>
  Claim C8, as the specification states it: for Corn on Loam at temperature 20 the base
  yield is 100 * 1.0 * 1.1 = 110. The code multiplies binary64 numbers: the result is
  the next number above 110, \<open>110 + 2^-46\<close>, which JavaScript prints as
  110.00000000000001.
\<close>

theorem base_yield_above_110:
  "calculateBaseYield ''Corn'' ''Loam'' reference_bundle = Num (110 + 1 / 2 ^ 46)
   \<and> calculateBaseYield ''Corn'' ''Loam'' reference_bundle \<noteq> Num 110"
  by (simp add: reference_base_yield)

text \<open>
  Claim C8, amended. For irrigation 5, fertilizer 15, livestock 2, Corn on Loam, and
  every bundle with temperature 20, root-zone soil moisture 0.3, precipitation 15,
  vegetation index 0.65 and a drought object, the base yield is the binary64 product of
  100, 1.0 and 1.1, that is \<open>110 + 2^-46\<close> (110 in exact arithmetic); the simulation
  returns a result, whose six scores and recommendations are fixed by the four readings
  (yield 123, sustainability 100, soil health 76, water efficiency 100, carbon
  footprint 293, economic viability 0, no recommendation); and the result is
  reproducible: every bundle in which the simulation reads the same values gives the
  same result.
\<close>

theorem reference_example:
  assumes "chain_temperature2m nasaData = Some 20"
    and "chain_soilMoistureRootZone nasaData = Some 0.3"
    and "chain_precipitation nasaData = Some 15"
    and "chain_ndvi nasaData = Some 0.65"
    and "chain_drought nasaData = Some d"
  shows "calculateBaseYield ''Corn'' ''Loam'' nasaData = Num (110 + 1 / 2 ^ 46)
         \<and> (\<exists>r. runComprehensiveSimulation reference_choices nasaData = Inr r
               \<and> yieldScore r = Num 123 \<and> sustainabilityScore r = 100
               \<and> soilHealthScore r = 76 \<and> waterEfficiencyScore r = 100
               \<and> carbonFootprint r = 293 \<and> economicViability r = Num 0
               \<and> recommendations r = [])
         \<and> (\<forall>nasaData'. same_readings nasaData' nasaData \<longrightarrow>
               runComprehensiveSimulation reference_choices nasaData'
                 = runComprehensiveSimulation reference_choices nasaData)"
proof (intro conjI allI impI)
  show "calculateBaseYield ''Corn'' ''Loam'' nasaData = Num (110 + 1 / 2 ^ 46)"
    by (rule base_yield_corn_loam) (simp add: assms)
  show "\<exists>r. runComprehensiveSimulation reference_choices nasaData = Inr r
               \<and> yieldScore r = Num 123 \<and> sustainabilityScore r = 100
               \<and> soilHealthScore r = 76 \<and> waterEfficiencyScore r = 100
               \<and> carbonFootprint r = 293 \<and> economicViability r = Num 0
               \<and> recommendations r = []"
    by (rule four_readings_result [OF assms])
  fix nasaData' assume "same_readings nasaData' nasaData"
  then show "runComprehensiveSimulation reference_choices nasaData'
                 = runComprehensiveSimulation reference_choices nasaData"
    by (rule run_congruence)
qed

text \<open>
  Claim C8, amended, at the reference bundle, which has the four readings and a drought
  object: the base yield is \<open>110 + 2^-46\<close>, and the simulation returns the yield score
  123 and one insight.
\<close>

theorem reference_example_witness:
  "chain_temperature2m reference_bundle = Some 20
   \<and> chain_soilMoistureRootZone reference_bundle = Some 0.3
   \<and> chain_precipitation reference_bundle = Some 15
   \<and> chain_ndvi reference_bundle = Some 0.65
   \<and> chain_drought reference_bundle = Some \<lparr>droughtCategory = Some ''None''\<rparr>
   \<and> calculateBaseYield ''Corn'' ''Loam'' reference_bundle = Num (110 + 1 / 2 ^ 46)
   \<and> map_sum id yieldScore (runComprehensiveSimulation reference_choices reference_bundle)
       = Inr (Num 123)
   \<and> map_sum id insights (runComprehensiveSimulation reference_choices reference_bundle)
       = Inr [''Livestock can provide natural fertilizer through manure'']
   \<and> same_readings reference_bundle reference_bundle"
proof -
  have "calculateBaseYield ''Corn'' ''Loam'' reference_bundle = Num (110 + 1 / 2 ^ 46)"
    using reference_example [OF chains_reference(1,3,2,5,6)] by (rule conjunct1)
  moreover obtain r where
      "runComprehensiveSimulation reference_choices reference_bundle = Inr r"
      "yieldScore r = Num 123"
      "insights r = [''Livestock can provide natural fertilizer through manure'']"
    using reference_result by blast
  ultimately show ?thesis
    by (simp add: chains_reference same_readings_def)
qed

section \<open>Crop and soil names outside the tables\<close>

text \<open>
  A name that is neither in a table nor a member every object inherits is scored as Corn
  on Loam: multiplier 100, soil factor 1.0, retention 0.8.
\<close>

lemma unknown_names_fall_back:
  assumes "crop \<notin> set [''Corn'', ''Wheat'', ''Soybeans'', ''Rice'']"
    and "crop \<notin> set Object_prototype_names"
    and "soil \<notin> set [''Loam'', ''Clay'', ''Sand'', ''Silt'']"
    and "soil \<notin> set Object_prototype_names"
  shows "calculateBaseYield crop soil n = calculateBaseYield ''Corn'' ''Loam'' n"
    and "calculateFertilizerImpact f soil = calculateFertilizerImpact f ''Loam''"
proof -
  have "map_of cropMultipliers crop = None"
    unfolding map_of_eq_None_iff table_names(1) by (rule assms(1))
  then have crop: "read_member cropMultipliers crop = Undefined"
    using assms(2) by (simp add: read_member_def)
  have "map_of soilMultipliers soil = None" "map_of soilNutrientRetention soil = None"
    unfolding map_of_eq_None_iff table_names(2,3) by (rule assms(3))+
  then have soil: "read_member soilMultipliers soil = Undefined"
      "read_member soilNutrientRetention soil = Undefined"
    using assms(4) by (simp_all add: read_member_def)
  have listed: "read_member cropMultipliers ''Corn'' = Own 100"
      "read_member soilMultipliers ''Loam'' = Own 1"
      "read_member soilNutrientRetention ''Loam'' = Own 0.8"
    by (simp_all add: read_member_def cropMultipliers_def soilMultipliers_def
        soilNutrientRetention_def)
  show "calculateBaseYield crop soil n = calculateBaseYield ''Corn'' ''Loam'' n"
    unfolding calculateBaseYield_def Let_def crop soil listed by simp
  show "calculateFertilizerImpact f soil = calculateFertilizerImpact f ''Loam''"
    unfolding calculateFertilizerImpact_def Let_def soil listed by simp
qed

text \<open>
  Claim C10 says that every crop or soil name outside the tables is scored as Corn on
  Loam. The names of the members that every object inherits are outside the tables, and
  for them the lookup finds the inherited member instead of the fallback: with the crop
  name \<open>constructor\<close> the base yield is \<open>NaN\<close> where Corn on Loam gives a number, with the
  soil name \<open>toString\<close> the fertilizer boost is \<open>NaN\<close> where Loam gives 6, and the yield
  score of the result is \<open>NaN\<close> where Corn on Loam gives 123.
\<close>

theorem prototype_name_yields_NaN:
  "calculateBaseYield ''constructor'' ''Loam'' reference_bundle = NaN
   \<and> calculateBaseYield ''Corn'' ''Loam'' reference_bundle = Num (110 + 1 / 2 ^ 46)
   \<and> fertilizer_yieldBoost (calculateFertilizerImpact 15 ''toString'') = NaN
   \<and> fertilizer_yieldBoost (calculateFertilizerImpact 15 ''Loam'') = Num 6
   \<and> map_sum id yieldScore (runComprehensiveSimulation prototype_crop_choices reference_bundle)
       = Inr NaN
   \<and> map_sum id yieldScore (runComprehensiveSimulation reference_choices reference_bundle)
       = Inr (Num 123)"
proof -
  have base: "calculateBaseYield ''constructor'' ''Loam'' reference_bundle = NaN"
    by (simp add: calculateBaseYield_def Let_def read_member_def cropMultipliers_def
        soilMultipliers_def Object_prototype_names_def)
  have fert: "fertilizer_yieldBoost (calculateFertilizerImpact 15 ''toString'') = NaN"
    by (simp add: calculateFertilizerImpact_def Let_def read_member_def
        soilNutrientRetention_def Object_prototype_names_def)
  obtain r where r: "runComprehensiveSimulation prototype_crop_choices reference_bundle = Inr r"
    using run_Some [OF chains_reference(6)] by blast
  have "yieldScore r = NaN"
    unfolding run_yield [OF r]
    by (simp add: prototype_crop_choices_def reference_choices_def base)
  with r reference_result show ?thesis
    by (auto simp add: base fert reference_base_yield reference_parts)
qed

section \<open>The simulation endpoint without a body\<close>

text \<open>
  Claim C2 says that a request without a JSON body is answered with status 400 and an
  error field. The code reads the body with \<open>request.json()\<close> before its check and
  outside its \<open>try\<close>: without a body the parse fails, and the \<open>SyntaxError\<close> escapes
  the handler instead.
\<close>

theorem POST_without_body: "POST fetched NoBody = Escaped SyntaxError"
  by (simp add: POST_def request_json_def)

text \<open>The 400 answer is reached by a body that parses to a falsy value, such as \<open>null\<close>.\<close>

lemma POST_falsy_body:
  "POST fetched FalsyJson =
     Responded \<lparr>status = 400, payload = PostError ''Missing request body'' None\<rparr>"
  by (simp add: POST_def request_json_def)

section \<open>The answers of the environmental-data endpoint\<close>

lemma generator_fulfilled: "\<exists>b. fetchComprehensiveNasaData e la lo = Inr b"
  unfolding fetchComprehensiveNasaData_def Let_def by (intro exI) (rule refl)

lemma GET_missing:
  assumes "not_string (lat q) \<or> not_string (lon q)"
  shows "GET e q =
           \<lparr>status = 400,
            payload = GetError ''Missing required query params: lat, lon'' None\<rparr>"
  using assms unfolding GET_def Let_def by simp

lemma GET_present:
  assumes "\<not> not_string (lat q)" and "\<not> not_string (lon q)"
  shows "status (GET e q) = 200" and "is_bundle (payload (GET e q))"
proof -
  obtain b where b: "fetchComprehensiveNasaData e (Number (lat q)) (Number (lon q)) = Inr b"
    using generator_fulfilled by blast
  show "status (GET e q) = 200" and "is_bundle (payload (GET e q))"
    using assms unfolding GET_def Let_def b by simp_all
qed

text \<open>
  Claim C3, as the specification states it: coordinates that are present but are not
  finite numbers are answered with status 400. The code never inspects the numbers: with
  \<open>lat=abc\<close> and \<open>lon=xyz\<close> it answers 200 with a data bundle.
\<close>

theorem GET_malformed_coordinates:
  "lat malformed_query = Some ''abc'' \<and> lon malformed_query = Some ''xyz''
   \<and> status (GET reference_entropy malformed_query) = 200
   \<and> is_bundle (payload (GET reference_entropy malformed_query))"
  using GET_present [of malformed_query reference_entropy]
  by (simp add: malformed_query_def)

text \<open>
  Claim C3, amended. The endpoint has one error answer, the 400 for a \<open>lat\<close> or \<open>lon\<close>
  that is absent or empty; when both are present and not empty, whatever their text, it
  answers 200 with a data bundle.
\<close>

theorem GET_answers:
  "(not_string (lat q) \<or> not_string (lon q) \<longrightarrow>
      GET e q = \<lparr>status = 400,
                 payload = GetError ''Missing required query params: lat, lon'' None\<rparr>)
   \<and> (\<not> not_string (lat q) \<and> \<not> not_string (lon q) \<longrightarrow>
        status (GET e q) = 200 \<and> is_bundle (payload (GET e q)))"
  using GET_missing GET_present by blast

text \<open>
  Claim C3, amended, at two requests: \<open>lat=abc&lon=xyz\<close> is answered 200 with a bundle,
  a request without parameters is answered 400.
\<close>

theorem GET_answers_witness:
  "\<not> not_string (lat malformed_query) \<and> \<not> not_string (lon malformed_query)
   \<and> status (GET reference_entropy malformed_query) = 200
   \<and> is_bundle (payload (GET reference_entropy malformed_query))
   \<and> (not_string (lat empty_query) \<or> not_string (lon empty_query))
   \<and> status (GET reference_entropy empty_query) = 400"
  using GET_answers [of malformed_query reference_entropy]
    GET_answers [of empty_query reference_entropy]
  by (simp add: malformed_query_def empty_query_def)

text \<open>
  Claim C9. Every request in which \<open>lat\<close> or \<open>lon\<close> is absent is answered with status
  400 and a payload that has an error field, and no data bundle.
\<close>

theorem GET_absent_coordinate:
  assumes "lat q = None \<or> lon q = None"
  shows "GET e q =
           \<lparr>status = 400,
            payload = GetError ''Missing required query params: lat, lon'' None\<rparr>
         \<and> \<not> is_bundle (payload (GET e q))"
proof -
  from assms have "not_string (lat q) \<or> not_string (lon q)" by auto
  then show ?thesis by (simp add: GET_missing)
qed

text \<open>Claim C9 at a request that has \<open>lon\<close> only.\<close>

theorem GET_absent_coordinate_witness:
  "(lat lon_only_query = None \<or> lon lon_only_query = None)
   \<and> status (GET reference_entropy lon_only_query) = 400
   \<and> payload (GET reference_entropy lon_only_query)
       = GetError ''Missing required query params: lat, lon'' None"
  using GET_absent_coordinate [of lon_only_query reference_entropy]
  by (simp add: lon_only_query_def)

end
